theory Spec2Isabelle
  imports Main
begin

section \<open>Persisted documents\<close>

text \<open>
  Object ids are kept as the strings the handlers receive. A missing or empty value is
  falsy in the source (\<^verbatim>\<open>!res.deviceId\<close>), which \<open>falsy\<close> captures for an optional string.
\<close>

type_synonym oid = string

definition falsy :: "string option \<Rightarrow> bool" where
  "falsy v = (case v of None \<Rightarrow> True | Some s \<Rightarrow> s = [])"

record mac_assign =
  host :: string
  mac :: string
  ipv4 :: string

record dhcp_doc =
  dhcp_id :: oid
  dhcp_interface :: string
  rangeStart :: string
  rangeEnd :: string
  dns :: "string list"
  macAssign :: "mac_assign list"
  dhcp_status :: string

record route_doc =
  route_id :: oid
  destination :: string
  route_gateway :: string
  ifname :: string
  route_metric :: string
  route_status :: string

record interface =
  ifc_id :: oid
  ifc_name :: string
  pciaddr :: string
  isAssigned :: bool
  ifc_type :: string
  IPv4 :: string
  IPv4Mask :: string
  gateway :: string
  routing :: string
  pathlabels :: "oid list option"
  ifc_dhcp :: string
  metric :: string
  useStun :: bool
  PublicPort :: string
  NatType :: string
  internetAccess :: string
  modified :: bool

text \<open>
  The validators read only the name and the interfaces of the object they are given, which
  is a stored device in one caller and a merged request in another: both extend this core.
\<close>

record device_core =
  dev_name :: string
  interfaces :: "interface list"

record device = device_core +
  dev_id :: oid
  dev_org :: string
  account :: string
  machineId :: string
  isApproved :: bool
  staticroutes :: "route_doc list"
  dhcp :: "dhcp_doc list"

section \<open>The devices collection\<close>

text \<open>
  \<^verbatim>\<open>devices.findOneAndUpdate(filter, update)\<close> rewrites the first document that matches the
  filter and leaves the collection alone when none does.
\<close>

fun findOneAndUpdate :: "(device \<Rightarrow> bool) \<Rightarrow> (device \<Rightarrow> device) \<Rightarrow> device list \<Rightarrow> device list" where
  "findOneAndUpdate q u [] = []"
| "findOneAndUpdate q u (d # ds) = (if q d then u d # ds else d # findOneAndUpdate q u ds)"

text \<open>\<^verbatim>\<open>{ $pull: { staticroutes: { _id: r } } }\<close>\<close>

definition pull_staticroute :: "oid \<Rightarrow> device \<Rightarrow> device" where
  "pull_staticroute r d = d\<lparr>staticroutes := filter (\<lambda>e. route_id e \<noteq> r) (staticroutes d)\<rparr>"

text \<open>
  \<^verbatim>\<open>{ $set: { 'staticroutes.$[elem].status': s } }\<close> with
  \<^verbatim>\<open>arrayFilters: [{ 'elem._id': r }]\<close>
\<close>

definition set_staticroute_status :: "oid \<Rightarrow> string \<Rightarrow> device \<Rightarrow> device" where
  "set_staticroute_status r s d =
     d\<lparr>staticroutes := map (\<lambda>e. if route_id e = r then e\<lparr>route_status := s\<rparr> else e) (staticroutes d)\<rparr>"

section \<open>deviceLogic/dhcp.js\<close>

record job_result =
  res_deviceId :: "oid option"
  res_routeId :: "oid option"
  res_message :: "string option"

record dhcp_data =
  data_id :: oid
  data_interface :: string
  data_rangeStart :: string
  data_rangeEnd :: string
  data_dns :: "string list"
  data_macAssign :: "mac_assign list"
  data_action :: string

record task =
  task_entity :: string
  task_message :: string
  task_params :: dhcp_data

record job =
  job_title :: string
  job_tasks :: "task list"
  job_method :: string
  job_response :: job_result
  job_state :: string

text \<open>
  \<open>apply\<close> builds the job of a DHCP intent. The agent's major version gates it: version 0
  raises. The response descriptor carries the device id, the DHCP entry's id (under the
  key \<open>routeId\<close>) and the agent message, \<open>add-dhcp-config\<close> or \<open>remove-dhcp-config\<close>.
\<close>

definition apply_message :: "dhcp_data \<Rightarrow> string" where
  "apply_message data = (if data_action data = ''del'' then ''remove-dhcp-config'' else ''add-dhcp-config'')"

definition apply_dhcp :: "nat \<Rightarrow> device \<Rightarrow> dhcp_data \<Rightarrow> string + job" where
  "apply_dhcp majorAgentVersion dev data =
     (if majorAgentVersion = 0 then Inl ''Command is not supported for the current agent version''
      else Inr \<lparr>job_title = (if data_action data = ''del'' then ''Delete'' else ''Add'') @ '' DHCP in device'',
                job_tasks = [\<lparr>task_entity = ''agent'', task_message = apply_message data, task_params = data\<rparr>],
                job_method = ''dhcp'',
                job_response = \<lparr>res_deviceId = Some (dev_id dev), res_routeId = Some (data_id data),
                                 res_message = Some (apply_message data)\<rparr>,
                job_state = ''inactive''\<rparr>)"

text \<open>
  The three outcome handlers. The flag \<open>dbOk\<close> says whether the database accepts the
  write; when it does not, the handler's \<^verbatim>\<open>catch\<close> logs and leaves the collection as it was.
  A malformed id makes \<^verbatim>\<open>mongoose.Types.ObjectId\<close> raise inside the same \<^verbatim>\<open>try\<close>; such an id
  matches no stored document, so the lookup below gives the same collection.
\<close>

definition complete :: "bool \<Rightarrow> job_result option \<Rightarrow> device list \<Rightarrow> device list" where
  "complete dbOk res ds =
     (case res of
        None \<Rightarrow> ds
      | Some r \<Rightarrow>
          if falsy (res_deviceId r) \<or> falsy (res_message r) \<or> falsy (res_routeId r) then ds
          else if \<not> dbOk then ds
          else (case (res_deviceId r, res_routeId r) of
                  (Some dv, Some rt) \<Rightarrow>
                    if res_message r = Some ''remove-route''
                    then findOneAndUpdate (\<lambda>d. dev_id d = dv) (pull_staticroute rt) ds
                    else findOneAndUpdate (\<lambda>d. dev_id d = dv) (set_staticroute_status rt ''complete'') ds
                | _ \<Rightarrow> ds))"

text \<open>
  \<open>error\<close> reads \<^verbatim>\<open>res.message\<close> inside its \<^verbatim>\<open>try\<close>, so an absent result is caught
  there. It does not test the ids: an absent id is cast by \<^verbatim>\<open>ObjectId(undefined)\<close> to a
  fresh id, which matches no document.
\<close>

definition error :: "bool \<Rightarrow> job_result option \<Rightarrow> device list \<Rightarrow> device list" where
  "error dbOk res ds =
     (case res of
        None \<Rightarrow> ds
      | Some r \<Rightarrow>
          if \<not> dbOk then ds
          else (case (res_deviceId r, res_routeId r) of
                  (Some dv, Some rt) \<Rightarrow>
                    if res_message r = Some ''remove-route''
                    then findOneAndUpdate (\<lambda>d. dev_id d = dv) (set_staticroute_status rt ''remove-failed'') ds
                    else findOneAndUpdate (\<lambda>d. dev_id d = dv) (set_staticroute_status rt ''add-failed'') ds
                | _ \<Rightarrow> ds))"

definition remove :: "bool \<Rightarrow> job \<Rightarrow> device list \<Rightarrow> device list" where
  "remove dbOk j ds =
     (if job_state j \<in> set [''inactive'', ''delayed'', ''active'']
      then (if \<not> dbOk then ds
            else (case (res_deviceId (job_response j), res_routeId (job_response j)) of
                    (Some dv, Some rt) \<Rightarrow>
                      findOneAndUpdate (\<lambda>d. dev_id d = dv) (set_staticroute_status rt ''job-deleted'') ds
                  | _ \<Rightarrow> ds))
      else ds)"

section \<open>Addresses and subnets\<close>

text \<open>
  \<^verbatim>\<open>net.isIPv4\<close> accepts four decimal octets between 0 and 255, without leading zeros,
  separated by dots. \<open>split_on\<close> is JavaScript's \<^verbatim>\<open>String.split\<close> on one character.
\<close>

fun split_on :: "char \<Rightarrow> string \<Rightarrow> string list" where
  "split_on c [] = [[]]"
| "split_on c (x # xs) =
     (if x = c then [] # split_on c xs
      else (case split_on c xs of [] \<Rightarrow> [[x]] | p # ps \<Rightarrow> (x # p) # ps))"

definition isDigit :: "char \<Rightarrow> bool" where
  "isDigit c = (48 \<le> (of_char c :: nat) \<and> (of_char c :: nat) \<le> 57)"

definition decimal :: "string \<Rightarrow> nat" where
  "decimal s = foldl (\<lambda>a c. 10 * a + ((of_char c :: nat) - 48)) 0 s"

definition octet :: "string \<Rightarrow> nat option" where
  "octet s =
     (if s \<noteq> [] \<and> length s \<le> 3 \<and> list_all isDigit s \<and> (length s = 1 \<or> hd s \<noteq> CHR ''0'')
         \<and> decimal s \<le> 255
      then Some (decimal s) else None)"

definition parseIPv4 :: "string \<Rightarrow> nat option" where
  "parseIPv4 s =
     (case map octet (split_on CHR ''.'' s) of
        [Some a, Some b, Some c, Some d] \<Rightarrow> Some (((a * 256 + b) * 256 + c) * 256 + d)
      | _ \<Rightarrow> None)"

definition isIPv4 :: "string \<Rightarrow> bool" where
  "isIPv4 s = (parseIPv4 s \<noteq> None)"

text \<open>
  The prefix length of an IPv4 CIDR string, as the \<^verbatim>\<open>cidr-tools\<close> pattern
  \<^verbatim>\<open>3[0-2]|[12]?[0-9]\<close> reads it: a decimal between 0 and 32 without a leading zero.
\<close>

definition prefixLength :: "string \<Rightarrow> nat option" where
  "prefixLength s =
     (if s \<noteq> [] \<and> length s \<le> 2 \<and> list_all isDigit s \<and> (length s = 1 \<or> hd s \<noteq> CHR ''0'')
         \<and> decimal s \<le> 32
      then Some (decimal s) else None)"

text \<open>
  \<^verbatim>\<open>cidr-tools\<close> parses a network into the first and the last address of its range; a bare
  address is the network of that one address. Anything else makes the library raise, which
  is \<open>None\<close> here (IPv6 networks, which the library also reads, never reach it from the
  IPv4 fields of an interface).
\<close>

definition parseCidr :: "string \<Rightarrow> (nat \<times> nat) option" where
  "parseCidr s =
     (case split_on CHR ''/'' s of
        [ip] \<Rightarrow> (case parseIPv4 ip of Some a \<Rightarrow> Some (a, a) | None \<Rightarrow> None)
      | [ip, m] \<Rightarrow>
          (case (parseIPv4 ip, prefixLength m) of
             (Some a, Some n) \<Rightarrow>
               (let size = 2 ^ (32 - n); start = (a div size) * size in Some (start, start + size - 1))
           | _ \<Rightarrow> None)
      | _ \<Rightarrow> None)"

text \<open>
  \<^verbatim>\<open>cidr.overlap(a, b)\<close>: the two ranges overlap unless one starts after the other ends.
\<close>

definition overlap :: "string \<Rightarrow> string \<Rightarrow> bool option" where
  "overlap a b =
     (case (parseCidr a, parseCidr b) of
        (Some (aStart, aEnd), Some (bStart, bEnd)) \<Rightarrow>
          Some (\<not> (aStart > bEnd) \<and> \<not> (bStart > aEnd))
      | _ \<Rightarrow> None)"

section \<open>deviceLogic/validators.js\<close>

record validation =
  valid :: bool
  err :: string

record org_subnet =
  os_name :: string
  os_subnet :: string

text \<open>
  An exception that escapes a function (a \<^verbatim>\<open>TypeError\<close> on a missing array, a raise of
  the CIDR library) is \<open>Inl\<close> of its message; a returned value is \<open>Inr\<close>.
  \<open>first_some\<close> is a \<^verbatim>\<open>for\<close> loop whose body may return: the first iteration that
  returns decides.
\<close>

fun first_some :: "('a \<Rightarrow> 'b option) \<Rightarrow> 'a list \<Rightarrow> 'b option" where
  "first_some f [] = None"
| "first_some f (x # xs) = (case f x of Some r \<Rightarrow> Some r | None \<Rightarrow> first_some f xs)"

definition invalid :: "string \<Rightarrow> (string + validation) option" where
  "invalid msg = Some (Inr \<lparr>valid = False, err = msg\<rparr>)"

definition subnet :: "interface \<Rightarrow> string" where
  "subnet ifc = IPv4 ifc @ ''/'' @ IPv4Mask ifc"

text \<open>The body of the loop over the assigned interfaces.\<close>

definition checkAssigned :: "interface \<Rightarrow> (string + validation) option" where
  "checkAssigned ifc =
     (if ifc_type ifc \<notin> set [''WAN'', ''LAN'']
      then invalid (''Invalid interface type for '' @ ifc_name ifc @ '': '' @ ifc_type ifc)
      else if \<not> isIPv4 (IPv4 ifc) \<or> IPv4Mask ifc = []
      then invalid (''Interface '' @ ifc_name ifc @ '' does not have an '' @
                    (if IPv4Mask ifc = [] then ''IPv4 mask'' else ''IP address''))
      else if ifc_type ifc = ''LAN''
      then (case pathlabels ifc of
              None \<Rightarrow> Some (Inl ''TypeError'')
            | Some ls \<Rightarrow>
                if length ls \<noteq> 0 then invalid ''Path Labels are not allowed on LAN interfaces''
                else if gateway ifc \<noteq> [] then invalid ''LAN interfaces should not be assigned a default GW''
                else None)
      else if routing ifc = ''OSPF'' then invalid ''OSPF should not be configured on WAN interface''
      else if \<not> isIPv4 (gateway ifc) then invalid ''All WAN interfaces should be assigned a default GW''
      else None)"

text \<open>The body of the nested loop over the WAN and the LAN interfaces.\<close>

definition checkWanLan :: "interface \<times> interface \<Rightarrow> (string + validation) option" where
  "checkWanLan p =
     (case overlap (subnet (fst p)) (subnet (snd p)) of
        None \<Rightarrow> Some (Inl ''Network is not a CIDR or IP'')
      | Some True \<Rightarrow> invalid ''WAN and LAN IP addresses have an overlap''
      | Some False \<Rightarrow> None)"

text \<open>The body of the nested loop over the organization's subnets and the LAN interfaces.\<close>

definition checkOrgLan :: "string \<Rightarrow> org_subnet \<times> interface \<Rightarrow> (string + validation) option" where
  "checkOrgLan name p =
     (if subnet (snd p) \<noteq> os_subnet (fst p)
      then (case overlap (subnet (snd p)) (os_subnet (fst p)) of
              None \<Rightarrow> Some (Inl ''Network is not a CIDR or IP'')
            | Some True \<Rightarrow> invalid (''The device '' @ name @ '' has a LAN subnet overlap with '' @ os_name (fst p))
            | Some False \<Rightarrow> None)
      else None)"

definition validateDevice ::
  "'a device_core_scheme \<Rightarrow> bool \<Rightarrow> org_subnet list \<Rightarrow> string + validation" where
  "validateDevice device checkOverlap organizationLanSubnets =
     (let assignedIfs = filter isAssigned (interfaces device);
          wanIfcs = filter (\<lambda>ifc. ifc_type ifc = ''WAN'') assignedIfs;
          lanIfcs = filter (\<lambda>ifc. ifc_type ifc = ''LAN'') assignedIfs
      in if length assignedIfs < 2 \<or> (length wanIfcs = 0 \<or> length lanIfcs = 0)
         then Inr \<lparr>valid = False, err = ''There should be at least one LAN and one WAN interfaces''\<rparr>
         else case first_some checkAssigned assignedIfs of
                Some r \<Rightarrow> r
              | None \<Rightarrow>
           (case first_some checkWanLan (List.product wanIfcs lanIfcs) of
                Some r \<Rightarrow> r
              | None \<Rightarrow>
           (case (if checkOverlap \<and> length organizationLanSubnets > 0
                  then first_some (checkOrgLan (dev_name device)) (List.product organizationLanSubnets lanIfcs)
                  else None) of
                Some r \<Rightarrow> r
              | None \<Rightarrow> Inr \<lparr>valid = True, err = ''''\<rparr>)))"

text \<open>
  An outcome of \<open>validateDevice\<close> other than an acceptance: \<^verbatim>\<open>{valid: false}\<close> or an
  exception. The caller turns both into a rejected request.
\<close>

definition rejected :: "string + validation \<Rightarrow> bool" where
  "rejected r = (case r of Inl m \<Rightarrow> True | Inr v \<Rightarrow> \<not> valid v)"

section \<open>The store and the collaborators\<close>

record tunnel =
  tun_id :: oid
  tun_org :: string
  isActive :: bool
  deviceA :: oid
  deviceB :: oid
  interfaceA :: oid
  interfaceB :: oid
  pathlabel :: "oid option"

text \<open>One call of \<^verbatim>\<open>dispatcher.apply\<close>: the devices, the method and the organization.\<close>

record dispatch_call =
  dc_devices :: "oid list"
  dc_method :: string
  dc_org :: string

text \<open>
  The documents (devices, tunnels, the per-account device count of the billing module)
  together with the two effects that are not documents: the sockets closed by
  \<^verbatim>\<open>connections.deviceDisconnect\<close> and the calls made to the dispatcher.
\<close>

record store =
  devices :: "device list"
  tunnels :: "tunnel list"
  billing :: "(string \<times> int) list"
  disconnected :: "string list"
  dispatched :: "dispatch_call list"

record dhcp_request =
  dr_interface :: "string option"
  dr_rangeStart :: string
  dr_rangeEnd :: string
  dr_dns :: "string list"
  dr_macAssign :: "mac_assign list option"

record device_request =
  rq_name :: string
  rq_isApproved :: "bool option"
  rq_interfaces :: "interface list option"
  rq_dhcp :: "dhcp_request list option"

text \<open>
  What the modules outside these files answer during one request: the organizations the
  caller may act on (or the resolver's exception), whether the billing module, the schema
  validation of an update, and the commit of the transaction succeed, what the dispatcher
  returns (job ids, or its exception), the device status, the configuration values, the
  organization's LAN subnets, the id given to a new sub-document, the cast of a device
  request to the stored document, and \<^verbatim>\<open>validateDhcpConfig\<close>.
\<close>

record env =
  envOrgList :: "string + string list"
  billingOk :: bool
  commitOk :: bool
  dispatcherResult :: "string + oid list"
  isRunning :: bool
  forbidLanSubnetOverlaps :: bool
  organizationLanSubnets :: "org_subnet list"
  tunnelPort :: string
  newId :: oid
  castUpdate :: "device_request \<Rightarrow> device \<Rightarrow> string + device"
  validateDhcpConfig :: "device \<Rightarrow> string list \<Rightarrow> validation"

datatype response = Success nat | Reject string nat

text \<open>\<^verbatim>\<open>Service.rejectResponse(e.message || 'Internal Server Error', e.status || 500)\<close>\<close>

definition rejectResponse :: "string \<Rightarrow> response" where
  "rejectResponse msg = Reject (if msg = [] then ''Internal Server Error'' else msg) 500"

definition firstOrg :: "string list \<Rightarrow> string" where
  "firstOrg orgList = (case orgList of [] \<Rightarrow> [] | x # _ \<Rightarrow> x)"

text \<open>
  Modelled from the spec: the billing module (\<^verbatim>\<open>flexibilling.registerDevice\<close>) is not among
  the source files; the spec has the deletion "decrementing a license count", so the call
  adds the increment to the account's count, and raises when the module refuses.
\<close>

fun addCount :: "string \<Rightarrow> int \<Rightarrow> (string \<times> int) list \<Rightarrow> (string \<times> int) list" where
  "addCount a i [] = [(a, i)]"
| "addCount a i ((b, n) # xs) = (if a = b then (b, n + i) # xs else (b, n) # addCount a i xs)"

definition registerDevice :: "env \<Rightarrow> string \<Rightarrow> int \<Rightarrow> (string \<times> int) list \<Rightarrow> string + (string \<times> int) list" where
  "registerDevice e a i b = (if billingOk e then Inr (addCount a i b) else Inl ''Failed to register device'')"

section \<open>services/TunnelsService.js\<close>

fun deactivate :: "oid \<Rightarrow> string list \<Rightarrow> tunnel list \<Rightarrow> tunnel list option" where
  "deactivate i orgList [] = None"
| "deactivate i orgList (t # ts) =
     (if tun_id t = i \<and> tun_org t \<in> set orgList then Some (t\<lparr>isActive := False\<rparr> # ts)
      else map_option ((#) t) (deactivate i orgList ts))"

definition tunnelsIdDELETE :: "env \<Rightarrow> oid \<Rightarrow> store \<Rightarrow> response \<times> store" where
  "tunnelsIdDELETE e i st =
     (case envOrgList e of
        Inl m \<Rightarrow> (rejectResponse m, st)
      | Inr orgList \<Rightarrow>
          (case deactivate i orgList (tunnels st) of
             Some ts \<Rightarrow> (Success 204, st\<lparr>tunnels := ts\<rparr>)
           | None \<Rightarrow> (Reject ''404'' 500, st)))"

section \<open>services/DevicesService.js\<close>

subsection \<open>devicesIdDELETE\<close>

text \<open>
  The reads and writes between \<^verbatim>\<open>startTransaction\<close> and \<^verbatim>\<open>commitTransaction\<close> take effect
  together or not at all: an exception before the commit aborts the session, and the
  documents stay as they were. Closing the device's socket is not a document and is not
  undone.
\<close>

definition devicesIdDELETE :: "env \<Rightarrow> oid \<Rightarrow> store \<Rightarrow> response \<times> store" where
  "devicesIdDELETE e i st =
     (case envOrgList e of
        Inl m \<Rightarrow> (rejectResponse m, st)
      | Inr orgList \<Rightarrow>
          let tunnelCount = length (filter (\<lambda>t. (deviceA t = i \<or> deviceB t = i) \<and> isActive t
                                                  \<and> tun_org t \<in> set orgList) (tunnels st))
          in if tunnelCount > 0
             then (rejectResponse ''All device tunnels must be deleted before deleting a device'', st)
             else (case filter (\<lambda>d. dev_id d = i \<and> dev_org d \<in> set orgList) (devices st) of
                     [] \<Rightarrow> (rejectResponse ''Device for deletion not found'', st)
                   | d0 # _ \<Rightarrow>
                       let st1 = st\<lparr>disconnected := machineId d0 # disconnected st\<rparr>;
                           deviceCount = length (filter (\<lambda>d. account d = account d0) (devices st))
                       in (case registerDevice e (account d0) (- 1) (billing st) of
                             Inl m \<Rightarrow> (rejectResponse m, st1)
                           | Inr b \<Rightarrow>
                               if commitOk e
                               then (Success 204,
                                     st1\<lparr>billing := b,
                                         devices := filter (\<lambda>d. \<not> (dev_id d = i \<and> dev_org d \<in> set orgList))
                                                      (devices st)\<rparr>)
                               else (rejectResponse ''Transaction commit failed'', st1))))"

subsection \<open>validateDhcpRequest\<close>

text \<open>\<^verbatim>\<open>uniqBy\<close> of lodash keeps the first element of every key.\<close>

fun uniqByFrom :: "'b list \<Rightarrow> ('a \<Rightarrow> 'b) \<Rightarrow> 'a list \<Rightarrow> 'a list" where
  "uniqByFrom seen f [] = []"
| "uniqByFrom seen f (x # xs) =
     (if f x \<in> set seen then uniqByFrom seen f xs else x # uniqByFrom (f x # seen) f xs)"

definition uniqBy :: "'a list \<Rightarrow> ('a \<Rightarrow> 'b) \<Rightarrow> 'a list" where
  "uniqBy xs f = uniqByFrom [] f xs"

text \<open>A string or array that is read after it was tested to be present.\<close>

definition orEmpty :: "'a list option \<Rightarrow> 'a list" where
  "orEmpty v = (case v of None \<Rightarrow> [] | Some s \<Rightarrow> s)"

definition validateDhcpRequest :: "'a device_core_scheme \<Rightarrow> dhcp_request \<Rightarrow> string + unit" where
  "validateDhcpRequest device dhcpRequest =
     (if falsy (dr_interface dhcpRequest) then Inl ''Interface is required to define DHCP''
      else case find (\<lambda>i. Some (pciaddr i) = dr_interface dhcpRequest) (interfaces device) of
        None \<Rightarrow> Inl (''Unknown interface: '' @ orEmpty (dr_interface dhcpRequest) @ '' in DHCP parameters'')
      | Some interfaceObj \<Rightarrow>
          if ifc_type interfaceObj \<noteq> ''LAN'' then Inl ''DHCP can be defined only for LAN interfaces''
          else (case dr_macAssign dhcpRequest of
                  None \<Rightarrow> Inl ''TypeError''
                | Some ma \<Rightarrow>
                    if length (uniqBy ma mac) \<noteq> length ma then Inl ''MAC bindings MACs are not unique''
                    else if length (uniqBy ma host) \<noteq> length ma then Inl ''MAC bindings hosts are not unique''
                    else if length (uniqBy ma ipv4) \<noteq> length ma then Inl ''MAC bindings IPs are not unique''
                    else Inr ()))"

subsection \<open>devicesIdDhcpPOST\<close>

definition push_dhcp :: "dhcp_doc \<Rightarrow> device \<Rightarrow> device" where
  "push_dhcp x d = d\<lparr>dhcp := dhcp d @ [x]\<rparr>"

definition devicesIdDhcpPOST :: "env \<Rightarrow> oid \<Rightarrow> dhcp_request \<Rightarrow> store \<Rightarrow> response \<times> store" where
  "devicesIdDhcpPOST e i dhcpRequest st =
     (case envOrgList e of
        Inl m \<Rightarrow> (rejectResponse m, st)
      | Inr orgList \<Rightarrow>
          (case find (\<lambda>d. dev_id d = i \<and> dev_org d \<in> set orgList) (devices st) of
             None \<Rightarrow> (rejectResponse ''Device not found'', st)
           | Some deviceObject \<Rightarrow>
               if \<not> isApproved deviceObject then (rejectResponse ''Device must be first approved'', st)
               else (case validateDhcpRequest deviceObject dhcpRequest of
                       Inl m \<Rightarrow> (rejectResponse m, st)
                     | Inr _ \<Rightarrow>
                         if length (filter (\<lambda>s. Some (dhcp_interface s) = dr_interface dhcpRequest)
                                      (dhcp deviceObject)) > 0
                         then (rejectResponse ''DHCP already configured for that interface'', st)
                         else if \<not> commitOk e then (rejectResponse ''Transaction commit failed'', st)
                         else
                           let dhcpData = \<lparr>dhcp_id = newId e,
                                           dhcp_interface = orEmpty (dr_interface dhcpRequest),
                                           rangeStart = dr_rangeStart dhcpRequest,
                                           rangeEnd = dr_rangeEnd dhcpRequest,
                                           dns = dr_dns dhcpRequest,
                                           macAssign = orEmpty (dr_macAssign dhcpRequest),
                                           dhcp_status = ''add-wait''\<rparr>;
                               st1 = st\<lparr>devices := findOneAndUpdate (\<lambda>d. dev_id d = dev_id deviceObject)
                                                       (push_dhcp dhcpData) (devices st)\<rparr>;
                               st2 = st1\<lparr>dispatched := dispatched st1 @
                                          [\<lparr>dc_devices = [dev_id deviceObject], dc_method = ''dhcp'',
                                            dc_org = firstOrg orgList\<rparr>]\<rparr>
                           in (case dispatcherResult e of
                                 Inl m \<Rightarrow> (rejectResponse m, st2)
                               | Inr ids \<Rightarrow> (Success 202, st2)))))"

subsection \<open>devicesIdDhcpDhcpIdPUT\<close>

text \<open>\<^verbatim>\<open>status.includes('wait')\<close>: the first string occurs inside the second.\<close>

fun includesStr :: "string \<Rightarrow> string \<Rightarrow> bool" where
  "includesStr sub [] = (sub = [])"
| "includesStr sub (c # cs) = (take (length sub) (c # cs) = sub \<or> includesStr sub cs)"

text \<open>
  \<^verbatim>\<open>{ $set: { 'dhcp.$[elem]': dhcpData } }\<close> with \<^verbatim>\<open>arrayFilters: [{ 'elem._id': dhcpId }]\<close>
\<close>

definition set_dhcp :: "oid \<Rightarrow> dhcp_doc \<Rightarrow> device \<Rightarrow> device" where
  "set_dhcp i x d = d\<lparr>dhcp := map (\<lambda>el. if dhcp_id el = i then x else el) (dhcp d)\<rparr>"

text \<open>
  \<^verbatim>\<open>isEqual(dhcpRequest, origCmpDhcp)\<close> of lodash, for a request body that carries the keys of
  a DHCP entry; \<open>bodyId\<close> is the body's own \<^verbatim>\<open>_id\<close> key, when it has one.
\<close>

definition isEqualDhcp :: "oid option \<Rightarrow> dhcp_request \<Rightarrow> dhcp_doc \<Rightarrow> bool" where
  "isEqualDhcp bodyId dhcpRequest origDhcp =
     (bodyId = Some (dhcp_id origDhcp) \<and> dr_dns dhcpRequest = dns origDhcp
      \<and> dr_interface dhcpRequest = Some (dhcp_interface origDhcp)
      \<and> dr_macAssign dhcpRequest = Some (macAssign origDhcp)
      \<and> dr_rangeStart dhcpRequest = rangeStart origDhcp \<and> dr_rangeEnd dhcpRequest = rangeEnd origDhcp)"

text \<open>
  The agent's major version comes from the versioning module and the status of an entry
  stored without one from the schema; neither is among the source files, both are
  arguments. Below version 2 a request equal to the stored entry falls through both
  branches and the handler returns nothing, which is \<open>None\<close>.
\<close>

definition devicesIdDhcpDhcpIdPUT ::
  "env \<Rightarrow> nat \<Rightarrow> string \<Rightarrow> oid \<Rightarrow> oid \<Rightarrow> oid option \<Rightarrow> dhcp_request \<Rightarrow> store
     \<Rightarrow> response option \<times> store" where
  "devicesIdDhcpDhcpIdPUT e majorAgentVersion schemaStatus i dhcpId bodyId dhcpRequest st =
     (case envOrgList e of
        Inl m \<Rightarrow> (Some (rejectResponse m), st)
      | Inr orgList \<Rightarrow>
     (case find (\<lambda>d. dev_id d = i \<and> dev_org d \<in> set orgList) (devices st) of
        None \<Rightarrow> (Some (rejectResponse ''Device not found''), st)
      | Some deviceObject \<Rightarrow>
     if \<not> isApproved deviceObject then (Some (rejectResponse ''Device must be first approved''), st)
     else if list_ex (\<lambda>d. includesStr ''wait'' (dhcp_status d)) (dhcp deviceObject)
     then (Some (rejectResponse ''Only one device change is allowed at any time''), st)
     else
     (case filter (\<lambda>s. dhcp_id s = dhcpId) (dhcp deviceObject) of
        [origDhcp] \<Rightarrow>
          let dhcpData = (\<lambda>status. \<lparr>dhcp_id = dhcpId,
                                    dhcp_interface = orEmpty (dr_interface dhcpRequest),
                                    rangeStart = dr_rangeStart dhcpRequest,
                                    rangeEnd = dr_rangeEnd dhcpRequest,
                                    dns = dr_dns dhcpRequest,
                                    macAssign = orEmpty (dr_macAssign dhcpRequest),
                                    dhcp_status = status\<rparr>);
              call = (\<lambda>method. \<lparr>dc_devices = [dev_id deviceObject], dc_method = method,
                                 dc_org = firstOrg orgList\<rparr>)
          in if majorAgentVersion < 2
             then (if \<not> isEqualDhcp bodyId dhcpRequest origDhcp
                   then (case validateDhcpRequest deviceObject dhcpRequest of
                           Inl m \<Rightarrow> (Some (rejectResponse m), st)
                         | Inr _ \<Rightarrow>
                             let st1 = st\<lparr>dispatched := dispatched st @ [call ''dhcp'']\<rparr>
                             in (case dispatcherResult e of
                                   Inl m \<Rightarrow> (Some (rejectResponse m), st1)
                                 | Inr ids \<Rightarrow>
                                     (Some (Success 202),
                                      st1\<lparr>devices := findOneAndUpdate (\<lambda>d. dev_id d = dev_id deviceObject)
                                                         (set_dhcp dhcpId (dhcpData ''add-wait'')) (devices st)\<rparr>)))
                   else (None, st))
             else
               let st1 = st\<lparr>devices := findOneAndUpdate (\<lambda>d. dev_id d = dev_id deviceObject)
                                          (set_dhcp dhcpId (dhcpData schemaStatus)) (devices st)\<rparr>;
                   st2 = st1\<lparr>dispatched := dispatched st1 @ [call ''modify'']\<rparr>
               in (case dispatcherResult e of
                     Inl m \<Rightarrow> (Some (rejectResponse m), st2)
                   | Inr ids \<Rightarrow> (Some (Success 202), st2))
      | _ \<Rightarrow> (Some (rejectResponse ''DHCP ID not found''), st))))"

subsection \<open>devicesIdPUT\<close>

text \<open>
  \<^verbatim>\<open>Promise.all\<close> over the mapped interfaces: the list of the results, or an exception of
  one of them. The callbacks write only to the request objects, one object per stored
  interface id, so the model runs them in the order of the list and reports the first
  exception in that order.
\<close>

fun promiseAll :: "(string + 'a) list \<Rightarrow> string + 'a list" where
  "promiseAll [] = Inr []"
| "promiseAll (p # ps) =
     (case p of
        Inl m \<Rightarrow> Inl m
      | Inr a \<Rightarrow> (case promiseAll ps of Inl m \<Rightarrow> Inl m | Inr rest \<Rightarrow> Inr (a # rest)))"

text \<open>
  \<^verbatim>\<open>tunnelsModel.countDocuments\<close> for the active tunnels that end at an interface, and for
  those among them that carry one of the given path labels.
\<close>

definition numTunnels :: "tunnel list \<Rightarrow> oid \<Rightarrow> nat" where
  "numTunnels tuns ifcId =
     length (filter (\<lambda>t. isActive t \<and> (interfaceA t = ifcId \<or> interfaceB t = ifcId)) tuns)"

definition numLabelTunnels :: "tunnel list \<Rightarrow> oid \<Rightarrow> oid list \<Rightarrow> nat" where
  "numLabelTunnels tuns ifcId remLabelsArray =
     length (filter (\<lambda>t. isActive t \<and> (interfaceA t = ifcId \<or> interfaceB t = ifcId)
                          \<and> (case pathlabel t of None \<Rightarrow> False | Some l \<Rightarrow> l \<in> set remLabelsArray)) tuns)"

text \<open>The assignments made to a request interface once the tunnel checks have passed.\<close>

definition linuxParams :: "interface \<Rightarrow> interface \<Rightarrow> interface" where
  "linuxParams origIntf updIntf =
     (let u1 = (if \<not> isAssigned updIntf \<or> ifc_dhcp updIntf = ''yes''
                then updIntf\<lparr>IPv4 := IPv4 origIntf, IPv4Mask := IPv4Mask origIntf, gateway := gateway origIntf\<rparr>
                else updIntf);
          u2 = (if \<not> isAssigned u1 then u1\<lparr>metric := metric origIntf\<rparr> else u1)
      in if isAssigned u2 \<noteq> isAssigned origIntf \<or> ifc_type u2 \<noteq> ifc_type origIntf
            \<or> ifc_dhcp u2 \<noteq> ifc_dhcp origIntf \<or> IPv4 u2 \<noteq> IPv4 origIntf
            \<or> IPv4Mask u2 \<noteq> IPv4Mask origIntf \<or> gateway u2 \<noteq> gateway origIntf
         then u2\<lparr>modified := True\<rparr> else u2)"

text \<open>The callback mapped over the stored interfaces.\<close>

definition mergeInterface :: "env \<Rightarrow> tunnel list \<Rightarrow> interface list \<Rightarrow> interface \<Rightarrow> string + interface" where
  "mergeInterface e tuns rifs origIntf =
     (case find (\<lambda>rif. ifc_id origIntf = ifc_id rif) rifs of
        None \<Rightarrow> Inr origIntf
      | Some rif \<Rightarrow>
          let updIntf = rif\<lparr>PublicPort := (if useStun rif then PublicPort origIntf else tunnelPort e),
                            NatType := (if useStun rif then NatType origIntf else ''Static''),
                            internetAccess := internetAccess origIntf\<rparr>;
              remLabels = filter (\<lambda>p. p \<notin> set (orEmpty (pathlabels updIntf))) (orEmpty (pathlabels origIntf))
          in if isAssigned origIntf \<and> \<not> isAssigned updIntf \<and> numTunnels tuns (ifc_id origIntf) > 0
             then Inl ''Unassigned interface used by existing tunnels, please delete related tunnels before''
             else if isAssigned origIntf \<and> isAssigned updIntf \<and> length remLabels > 0
                     \<and> numLabelTunnels tuns (ifc_id origIntf) remLabels > 0
             then Inl ''Removed label used by existing tunnels, please delete related tunnels before''
             else Inr (linuxParams origIntf updIntf))"

text \<open>"Make sure interfaces are not deleted, only modified": the request's interfaces after the block.\<close>

definition mergeInterfaces :: "env \<Rightarrow> tunnel list \<Rightarrow> device_request \<Rightarrow> device \<Rightarrow> string + interface list option" where
  "mergeInterfaces e tuns deviceRequest origDevice =
     (case rq_interfaces deviceRequest of
        None \<Rightarrow> Inr None
      | Some rifs \<Rightarrow>
          (case promiseAll (map (mergeInterface e tuns rifs) (interfaces origDevice)) of
             Inl m \<Rightarrow> Inl m
           | Inr ifs \<Rightarrow> Inr (Some ifs)))"

text \<open>"validate DHCP info if it exists"\<close>

fun validateDhcpRequests :: "'a device_core_scheme \<Rightarrow> dhcp_request list \<Rightarrow> string + unit" where
  "validateDhcpRequests device [] = Inr ()"
| "validateDhcpRequests device (r # rs) =
     (case validateDhcpRequest device r of Inl m \<Rightarrow> Inl m | Inr _ \<Rightarrow> validateDhcpRequests device rs)"

text \<open>
  "Don't allow to modify/assign/unassign interfaces that are assigned with DHCP": the
  stored DHCP entries that remain in the request, and the PCI addresses of the modified
  interfaces, are handed to \<^verbatim>\<open>validateDhcpConfig\<close>.
\<close>

definition checkDhcpConfig :: "env \<Rightarrow> device \<Rightarrow> device_request \<Rightarrow> string + unit" where
  "checkDhcpConfig e origDevice deviceRequest =
     (case rq_interfaces deviceRequest of
        None \<Rightarrow> Inr ()
      | Some ifs \<Rightarrow>
          let remaining = (case rq_dhcp deviceRequest of
                             None \<Rightarrow> dhcp origDevice
                           | Some upds \<Rightarrow>
                               filter (\<lambda>orig. find (\<lambda>upd. Some (dhcp_interface orig) = dr_interface upd) upds \<noteq> None)
                                 (dhcp origDevice));
              modifiedInterfaces = map pciaddr (filter modified ifs);
              v = validateDhcpConfig e (origDevice\<lparr>dhcp := remaining\<rparr>) modifiedInterfaces
          in if \<not> valid v then Inl (err v) else Inr ())"

text \<open>
  The organization's LAN subnets are fetched only for a running device and when overlaps
  are forbidden by configuration.
\<close>

definition orgLanSubnets :: "env \<Rightarrow> org_subnet list" where
  "orgLanSubnets e = (if isRunning e \<and> forbidLanSubnetOverlaps e then organizationLanSubnets e else [])"

text \<open>
  \<^verbatim>\<open>deviceToValidate\<close>: the request, with the stored interfaces where the request has none.
\<close>

definition deviceToValidate :: "device_request \<Rightarrow> device \<Rightarrow> interface list option \<Rightarrow> device_core" where
  "deviceToValidate deviceRequest origDevice merged =
     \<lparr>dev_name = rq_name deviceRequest,
      interfaces = (case merged of None \<Rightarrow> interfaces origDevice | Some ifs \<Rightarrow> ifs)\<rparr>"

definition devicesIdPUT :: "env \<Rightarrow> oid \<Rightarrow> device_request \<Rightarrow> store \<Rightarrow> response \<times> store" where
  "devicesIdPUT e i deviceRequest st =
     (case envOrgList e of
        Inl m \<Rightarrow> (rejectResponse m, st)
      | Inr orgList \<Rightarrow>
     (case find (\<lambda>d. dev_id d = i \<and> dev_org d \<in> set orgList) (devices st) of
        None \<Rightarrow> (rejectResponse ''TypeError'', st)
      | Some origDevice \<Rightarrow>
     if \<not> isApproved origDevice \<and> rq_isApproved deviceRequest \<noteq> Some True
     then (rejectResponse ''Device must be first approved'', st)
     else
     (case mergeInterfaces e (tunnels st) deviceRequest origDevice of
        Inl m \<Rightarrow> (rejectResponse m, st)
      | Inr merged \<Rightarrow>
     let deviceRequest1 = deviceRequest\<lparr>rq_interfaces := merged\<rparr>;
         toValidate = deviceToValidate deviceRequest origDevice merged
     in
     (case validateDhcpRequests toValidate (orEmpty (rq_dhcp deviceRequest)) of
        Inl m \<Rightarrow> (rejectResponse m, st)
      | Inr _ \<Rightarrow>
     (case checkDhcpConfig e origDevice deviceRequest1 of
        Inl m \<Rightarrow> (rejectResponse m, st)
      | Inr _ \<Rightarrow>
     (case validateDevice toValidate (isRunning e) (orgLanSubnets e) of
        Inl m \<Rightarrow> (rejectResponse m, st)
      | Inr v \<Rightarrow>
     if \<not> valid v then (rejectResponse (err v), st)
     else
     let st1 = (if rq_isApproved deviceRequest = Some False
                then st\<lparr>disconnected := machineId origDevice # disconnected st\<rparr> else st)
     in
     (case castUpdate e deviceRequest1 origDevice of
        Inl m \<Rightarrow> (rejectResponse m, st1)
      | Inr updDevice \<Rightarrow>
     if \<not> commitOk e then (rejectResponse ''Transaction commit failed'', st1)
     else
     let st2 = st1\<lparr>devices := findOneAndUpdate (\<lambda>d. dev_id d = i \<and> dev_org d \<in> set orgList)
                                  (\<lambda>_. updDevice) (devices st)\<rparr>;
         st3 = st2\<lparr>dispatched := dispatched st2 @
                      [\<lparr>dc_devices = [dev_id origDevice], dc_method = ''modify'', dc_org = firstOrg orgList\<rparr>]\<rparr>
     in
     (case dispatcherResult e of
        Inl m \<Rightarrow> (rejectResponse m, st3)
      | Inr ids \<Rightarrow> (Success (if length ids > 0 then 202 else 200), st3)))))))))"

section \<open>Predicates on the store\<close>

text \<open>The filter of the tunnel count in \<open>devicesIdDELETE\<close>.\<close>

definition referencing :: "oid \<Rightarrow> string list \<Rightarrow> tunnel \<Rightarrow> bool" where
  "referencing i orgList t = ((deviceA t = i \<or> deviceB t = i) \<and> isActive t \<and> tun_org t \<in> set orgList)"

text \<open>No device stores two DHCP entries for one interface.\<close>

definition onePerInterface :: "device list \<Rightarrow> bool" where
  "onePerInterface ds = list_all (\<lambda>d. distinct (map dhcp_interface (dhcp d))) ds"

section \<open>Example configurations\<close>

definition mkInterface :: "oid \<Rightarrow> string \<Rightarrow> bool \<Rightarrow> string \<Rightarrow> string \<Rightarrow> string \<Rightarrow> string \<Rightarrow> interface" where
  "mkInterface i pci assigned ty ip msk gw =
     \<lparr>ifc_id = i, ifc_name = pci, pciaddr = pci, isAssigned = assigned, ifc_type = ty, IPv4 = ip,
      IPv4Mask = msk, gateway = gw, routing = ''NONE'', pathlabels = Some [], ifc_dhcp = ''no'',
      metric = ''0'', useStun = True, PublicPort = ''4789'', NatType = '''', internetAccess = ''yes'',
      modified = False\<rparr>"

definition wan0 :: interface where
  "wan0 = mkInterface ''5f00000000000000000000a1'' ''0000:00:03.00'' True ''WAN'' ''192.168.1.1'' ''24'' ''192.168.1.254''"

definition lan0 :: interface where
  "lan0 = mkInterface ''5f00000000000000000000a2'' ''0000:00:08.00'' True ''LAN'' ''10.0.0.0'' ''24'' ''''"

definition lan1 :: interface where
  "lan1 = mkInterface ''5f00000000000000000000a3'' ''0000:00:09.00'' True ''LAN'' ''10.0.0.128'' ''25'' ''''"

definition dhcpAdd :: dhcp_doc where
  "dhcpAdd = \<lparr>dhcp_id = ''5f00000000000000000000d1'', dhcp_interface = ''0000:00:08.00'',
     rangeStart = ''10.0.0.2'', rangeEnd = ''10.0.0.100'', dns = [''8.8.8.8''], macAssign = [],
     dhcp_status = ''add-wait''\<rparr>"

definition dhcpDel :: dhcp_doc where
  "dhcpDel = \<lparr>dhcp_id = ''5f00000000000000000000d2'', dhcp_interface = ''0000:00:09.00'',
     rangeStart = ''10.0.0.130'', rangeEnd = ''10.0.0.200'', dns = [''8.8.8.8''], macAssign = [],
     dhcp_status = ''del-wait''\<rparr>"

definition dev0 :: device where
  "dev0 = \<lparr>dev_name = ''edge1'', interfaces = [wan0, lan0, lan1],
     dev_id = ''5f0000000000000000000001'', dev_org = ''org1'', account = ''acc1'',
     machineId = ''machine-1'', isApproved = True, staticroutes = [], dhcp = [dhcpAdd, dhcpDel]\<rparr>"

definition wanTen :: interface where
  "wanTen = mkInterface ''5f00000000000000000000a4'' ''0000:00:04.00'' True ''WAN'' ''10.0.0.0'' ''24'' ''10.0.0.1''"

definition lan2 :: interface where
  "lan2 = mkInterface ''5f00000000000000000000a5'' ''0000:00:0a.00'' True ''LAN'' ''10.0.1.0'' ''24'' ''''"

definition lanOff :: interface where
  "lanOff = mkInterface ''5f00000000000000000000a6'' ''0000:00:0b.00'' False ''LAN'' '''' '''' ''''"

text \<open>
  Three configurations: two overlapping LAN subnets beside a WAN elsewhere; a WAN and a LAN
  subnet that overlap; a WAN and a LAN subnet that do not.
\<close>

definition cfgLanLan :: device_core where
  "cfgLanLan = \<lparr>dev_name = ''edge1'', interfaces = [wan0, lan0, lan1]\<rparr>"

definition cfgWanLan :: device_core where
  "cfgWanLan = \<lparr>dev_name = ''edge2'', interfaces = [wanTen, lan1]\<rparr>"

definition cfgDisjoint :: device_core where
  "cfgDisjoint = \<lparr>dev_name = ''edge3'', interfaces = [wanTen, lan2]\<rparr>"

text \<open>A device with an unassigned LAN interface, and DHCP requests for it and for an assigned one.\<close>

definition cfgOff :: device_core where
  "cfgOff = \<lparr>dev_name = ''edge4'', interfaces = [wan0, lan0, lanOff]\<rparr>"

definition reqOff :: dhcp_request where
  "reqOff = \<lparr>dr_interface = Some ''0000:00:0b.00'', dr_rangeStart = ''10.0.2.2'',
     dr_rangeEnd = ''10.0.2.100'', dr_dns = [''8.8.8.8''], dr_macAssign = Some []\<rparr>"

definition reqLan0 :: dhcp_request where
  "reqLan0 = \<lparr>dr_interface = Some ''0000:00:08.00'', dr_rangeStart = ''10.0.0.2'',
     dr_rangeEnd = ''10.0.0.100'', dr_dns = [''8.8.8.8''],
     dr_macAssign = Some [\<lparr>host = ''printer'', mac = ''08:00:27:d0:d2:04'', ipv4 = ''10.0.0.20''\<rparr>,
                          \<lparr>host = ''camera'', mac = ''08:00:27:d0:d2:05'', ipv4 = ''10.0.0.21''\<rparr>]\<rparr>"

text \<open>A second device, a tunnel between the two, and the store before and after the tunnel is deactivated.\<close>

definition devB :: device where
  "devB = \<lparr>dev_name = ''edge2'', interfaces = [wanTen, lan2],
     dev_id = ''5f0000000000000000000002'', dev_org = ''org1'', account = ''acc1'',
     machineId = ''machine-2'', isApproved = True, staticroutes = [], dhcp = []\<rparr>"

definition tun0 :: tunnel where
  "tun0 = \<lparr>tun_id = ''5f00000000000000000000f1'', tun_org = ''org1'', isActive = True,
     deviceA = ''5f0000000000000000000001'', deviceB = ''5f0000000000000000000002'',
     interfaceA = ''5f00000000000000000000a1'', interfaceB = ''5f00000000000000000000a4'',
     pathlabel = Some ''5f00000000000000000000c1''\<rparr>"

definition store0 :: store where
  "store0 = \<lparr>devices = [dev0, devB], tunnels = [tun0], billing = [(''acc1'', 2)],
     disconnected = [], dispatched = []\<rparr>"

definition store1 :: store where
  "store1 = store0\<lparr>tunnels := [tun0\<lparr>isActive := False\<rparr>]\<rparr>"

text \<open>Collaborators that accept everything.\<close>

definition acceptAll :: "device \<Rightarrow> string list \<Rightarrow> validation" where
  "acceptAll d pcis = \<lparr>valid = True, err = []\<rparr>"

definition castPlain :: "device_request \<Rightarrow> device \<Rightarrow> string + device" where
  "castPlain rq d =
     Inr (d\<lparr>dev_name := rq_name rq,
            interfaces := (case rq_interfaces rq of None \<Rightarrow> interfaces d | Some ifs \<Rightarrow> ifs),
            isApproved := (case rq_isApproved rq of None \<Rightarrow> isApproved d | Some b \<Rightarrow> b)\<rparr>)"

definition env0 :: env where
  "env0 = \<lparr>envOrgList = Inr [''org1''], billingOk = True, commitOk = True,
     dispatcherResult = Inr [''17''], isRunning = False, forbidLanSubnetOverlaps = False,
     organizationLanSubnets = [], tunnelPort = ''4789'', newId = ''5f00000000000000000000d9'',
     castUpdate = castPlain, validateDhcpConfig = acceptAll\<rparr>"

text \<open>A DHCP request for the LAN interface of the second device, which has no DHCP server yet.\<close>

definition reqLan2 :: dhcp_request where
  "reqLan2 = \<lparr>dr_interface = Some ''0000:00:0a.00'', dr_rangeStart = ''10.0.1.2'',
     dr_rangeEnd = ''10.0.1.100'', dr_dns = [''8.8.8.8''], dr_macAssign = Some []\<rparr>"

text \<open>
  Requests to modify the first device: one gives a LAN interface a gateway, one unassigns the
  WAN interface of the tunnel, one drops the path label of that interface (on a store where
  the interface carries the label of the tunnel).
\<close>

definition lanGw :: interface where
  "lanGw = lan0\<lparr>gateway := ''10.0.0.1''\<rparr>"

definition reqGw :: device_request where
  "reqGw = \<lparr>rq_name = ''edge1'', rq_isApproved = Some True, rq_interfaces = Some [lanGw], rq_dhcp = None\<rparr>"

definition reqUnassign :: device_request where
  "reqUnassign = \<lparr>rq_name = ''edge1'', rq_isApproved = Some True,
     rq_interfaces = Some [wan0\<lparr>isAssigned := False\<rparr>], rq_dhcp = None\<rparr>"

definition wanLabel :: interface where
  "wanLabel = wan0\<lparr>pathlabels := Some [''5f00000000000000000000c1'']\<rparr>"

definition storeL :: store where
  "storeL = store0\<lparr>devices := [dev0\<lparr>interfaces := [wanLabel, lan0, lan1]\<rparr>, devB]\<rparr>"

definition reqUnlabel :: device_request where
  "reqUnlabel = \<lparr>rq_name = ''edge1'', rq_isApproved = Some True, rq_interfaces = Some [wan0], rq_dhcp = None\<rparr>"

text \<open>A request that only renames the first device.\<close>

definition reqRename :: device_request where
  "reqRename = \<lparr>rq_name = ''edge1-renamed'', rq_isApproved = Some True, rq_interfaces = None, rq_dhcp = None\<rparr>"

text \<open>
  The store with the tunnel registered under another organization than the caller's, and
  the store whose DHCP entries of the first device have both completed.
\<close>

definition tunForeign :: tunnel where
  "tunForeign = tun0\<lparr>tun_org := ''org2''\<rparr>"

definition storeForeign :: store where
  "storeForeign = store0\<lparr>tunnels := [tunForeign]\<rparr>"

definition storeDone :: store where
  "storeDone = store0\<lparr>devices := [dev0\<lparr>dhcp := [dhcpAdd\<lparr>dhcp_status := ''complete''\<rparr>,
                                                 dhcpDel\<lparr>dhcp_status := ''complete''\<rparr>]\<rparr>, devB]\<rparr>"

text \<open>The data the service hands to \<open>apply\<close> for adding the first entry and for deleting the second.\<close>

definition addData :: dhcp_data where
  "addData = \<lparr>data_id = ''5f00000000000000000000d1'', data_interface = ''0000:00:08.00'',
     data_rangeStart = ''10.0.0.2'', data_rangeEnd = ''10.0.0.100'', data_dns = [''8.8.8.8''],
     data_macAssign = [], data_action = ''add''\<rparr>"

definition delData :: dhcp_data where
  "delData = \<lparr>data_id = ''5f00000000000000000000d2'', data_interface = ''0000:00:09.00'',
     data_rangeStart = ''10.0.0.130'', data_rangeEnd = ''10.0.0.200'', data_dns = [''8.8.8.8''],
     data_macAssign = [], data_action = ''del''\<rparr>"

text \<open>The outcome handler run on the response descriptor of the job that \<open>apply\<close> queues.\<close>

definition deliver ::
  "(job_result option \<Rightarrow> device list \<Rightarrow> device list) \<Rightarrow> device \<Rightarrow> dhcp_data \<Rightarrow> device list \<Rightarrow> device list option" where
  "deliver handler dev data ds =
     (case apply_dhcp 1 dev data of
        Inl _ \<Rightarrow> None
      | Inr j \<Rightarrow> Some (handler (Some (job_response j)) ds))"

definition deliverRemoved :: "string \<Rightarrow> device \<Rightarrow> dhcp_data \<Rightarrow> device list \<Rightarrow> device list option" where
  "deliverRemoved state dev data ds =
     (case apply_dhcp 1 dev data of
        Inl _ \<Rightarrow> None
      | Inr j \<Rightarrow> Some (remove True (j\<lparr>job_state := state\<rparr>) ds))"

section \<open>Outcome handlers of DHCP jobs\<close>

lemma findOneAndUpdate_idem:
  assumes "\<And>d. q (u d) = q d" and "\<And>d. u (u d) = u d"
  shows "findOneAndUpdate q u (findOneAndUpdate q u ds) = findOneAndUpdate q u ds"
  using assms by (induction ds) auto

lemma findOneAndUpdate_dhcp:
  assumes "\<And>d. dhcp (u d) = dhcp d"
  shows "map dhcp (findOneAndUpdate q u ds) = map dhcp ds"
  using assms by (induction ds) auto

lemma pull_staticroute_idem: "pull_staticroute r (pull_staticroute r d) = pull_staticroute r d"
  by (simp add: pull_staticroute_def)

lemma set_staticroute_status_idem:
  "set_staticroute_status r s (set_staticroute_status r s d) = set_staticroute_status r s d"
  by (simp add: set_staticroute_status_def)

text \<open>
  None of the three handlers ever writes to the \<open>dhcp\<close> array of a device: all their
  updates address \<open>staticroutes\<close>.
\<close>

lemma complete_keeps_dhcp: "map dhcp (complete dbOk res ds) = map dhcp ds"
  by (auto simp: complete_def findOneAndUpdate_dhcp pull_staticroute_def set_staticroute_status_def
      split: option.splits)

lemma error_keeps_dhcp: "map dhcp (error dbOk res ds) = map dhcp ds"
  by (auto simp: error_def findOneAndUpdate_dhcp set_staticroute_status_def split: option.splits)

lemma remove_keeps_dhcp: "map dhcp (remove dbOk j ds) = map dhcp ds"
  by (auto simp: remove_def findOneAndUpdate_dhcp set_staticroute_status_def split: option.splits)

lemma remove_terminal:
  "job_state j \<notin> {''inactive'', ''delayed'', ''active''} \<Longrightarrow> remove dbOk j ds = ds"
  by (simp add: remove_def)

text \<open>
  C1 (the code departs from it). The claim: on completion of a DHCP job the handler deletes
  the DHCP sub-document when the job was a removal, and otherwise sets its status to
  \<open>complete\<close>. On the device \<open>dev0\<close>, whose entries wait for an add and for a removal, the
  handler run on the response of either job leaves both entries as they were: the removed
  entry is still stored and the added entry still has status \<open>add-wait\<close>.
\<close>

theorem complete_leaves_dhcp_entries:
  "deliver (complete True) dev0 delData [dev0] = Some [dev0]
   \<and> deliver (complete True) dev0 addData [dev0] = Some [dev0]
   \<and> map dhcp_status (dhcp dev0) = [''add-wait'', ''del-wait'']"
  by (simp add: deliver_def apply_dhcp_def apply_message_def complete_def falsy_def
      set_staticroute_status_def dev0_def delData_def addData_def dhcpAdd_def dhcpDel_def)

text \<open>
  C2 (the code departs from it). The claim: on failure of a DHCP job the handler sets the
  status of the DHCP sub-document to \<open>add-failed\<close> or \<open>remove-failed\<close>. On \<open>dev0\<close> the
  handler leaves both entries in their waiting status, for the failed add and for the failed
  removal alike.
\<close>

theorem error_leaves_dhcp_entries:
  "deliver (error True) dev0 addData [dev0] = Some [dev0]
   \<and> deliver (error True) dev0 delData [dev0] = Some [dev0]
   \<and> map dhcp_status (dhcp dev0) = [''add-wait'', ''del-wait'']"
  by (simp add: deliver_def apply_dhcp_def apply_message_def error_def
      set_staticroute_status_def dev0_def delData_def addData_def dhcpAdd_def dhcpDel_def)

text \<open>
  C3 (the code departs from it). The claim: when a DHCP job is removed while queued, delayed
  or active, the handler sets the status of the DHCP sub-document to \<open>job-deleted\<close>. On
  \<open>dev0\<close> the handler leaves the entry of the removed job in status \<open>add-wait\<close>, in each
  of the three states.
\<close>

theorem remove_leaves_dhcp_entries:
  "deliverRemoved ''inactive'' dev0 addData [dev0] = Some [dev0]
   \<and> deliverRemoved ''delayed'' dev0 addData [dev0] = Some [dev0]
   \<and> deliverRemoved ''active'' dev0 addData [dev0] = Some [dev0]
   \<and> map dhcp_status (dhcp dev0) = [''add-wait'', ''del-wait'']"
  by (simp add: deliverRemoved_def apply_dhcp_def apply_message_def remove_def
      set_staticroute_status_def dev0_def delData_def addData_def dhcpAdd_def dhcpDel_def)

text \<open>
  C9. Delivering the same completion event twice leaves the devices collection as one
  delivery leaves it, whether the database accepts the writes or refuses them.
\<close>

theorem complete_idempotent:
  "complete dbOk res (complete dbOk res ds) = complete dbOk res ds"
  by (auto simp: complete_def findOneAndUpdate_idem pull_staticroute_idem set_staticroute_status_idem
      pull_staticroute_def set_staticroute_status_def split: option.splits)

text \<open>
  The same holds when a delivery may find the database refusing the write: two deliveries
  amount to one that succeeds if either of them does.
\<close>

lemma complete_twice:
  "complete ok2 res (complete ok1 res ds) = complete (ok1 \<or> ok2) res ds"
  by (auto simp: complete_def findOneAndUpdate_idem pull_staticroute_idem set_staticroute_status_idem
      pull_staticroute_def set_staticroute_status_def split: option.splits)

section \<open>Subnet overlap in validateDevice\<close>

lemmas subnet_eval = overlap_def parseCidr_def prefixLength_def parseIPv4_def octet_def decimal_def
  isDigit_def isIPv4_def subnet_def

lemmas validateDevice_eval = validateDevice_def checkAssigned_def checkWanLan_def checkOrgLan_def
  invalid_def mkInterface_def Let_def subnet_eval

lemma first_some_in: "first_some f xs = Some r \<Longrightarrow> \<exists>x\<in>set xs. f x = Some r"
  by (induction xs) (auto split: option.splits)

lemma first_some_None: "first_some f xs = None \<Longrightarrow> x \<in> set xs \<Longrightarrow> f x = None"
  by (induction xs) (auto split: option.splits)

lemma first_some_rejected:
  assumes "first_some f xs = Some r" and "\<And>x y. f x = Some y \<Longrightarrow> rejected y"
  shows "rejected r"
proof -
  obtain x where "f x = Some r" using first_some_in[OF assms(1)] by blast
  then show ?thesis by (rule assms(2))
qed

lemma first_some_hit:
  assumes "x \<in> set xs" and "f x \<noteq> None"
  shows "\<exists>r. first_some f xs = Some r"
proof (cases "first_some f xs")
  case None
  from first_some_None[OF None assms(1)] assms(2) show ?thesis by simp
next
  case (Some r)
  then show ?thesis by blast
qed

lemma checkAssigned_rejected: "checkAssigned i = Some r \<Longrightarrow> rejected r"
  by (auto simp: checkAssigned_def invalid_def rejected_def split: if_splits option.splits)

lemma checkWanLan_rejected: "checkWanLan p = Some r \<Longrightarrow> rejected r"
  by (auto simp: checkWanLan_def invalid_def rejected_def split: if_splits option.splits bool.splits)

lemma validateDevice_unfold:
  assumes "as = filter isAssigned (interfaces device)"
      and "ws = filter (\<lambda>ifc. ifc_type ifc = ''WAN'') as"
      and "ls = filter (\<lambda>ifc. ifc_type ifc = ''LAN'') as"
  shows "validateDevice device checkOverlap orgSubnets =
     (if length as < 2 \<or> (length ws = 0 \<or> length ls = 0)
         then Inr \<lparr>valid = False, err = ''There should be at least one LAN and one WAN interfaces''\<rparr>
         else case first_some checkAssigned as of
                Some r \<Rightarrow> r
              | None \<Rightarrow>
           (case first_some checkWanLan (List.product ws ls) of
                Some r \<Rightarrow> r
              | None \<Rightarrow>
           (case (if checkOverlap \<and> length orgSubnets > 0
                  then first_some (checkOrgLan (dev_name device)) (List.product orgSubnets ls)
                  else None) of
                Some r \<Rightarrow> r
              | None \<Rightarrow> Inr \<lparr>valid = True, err = []\<rparr>)))"
  unfolding validateDevice_def assms Let_def ..

text \<open>
  The two subnets of the spec's example overlap by range arithmetic although the strings
  differ, and the disjoint pair does not.
\<close>

lemma overlap_examples:
  "overlap ''10.0.0.0/24'' ''10.0.0.128/25'' = Some True"
  "overlap ''10.0.0.0/24'' ''10.0.1.0/24'' = Some False"
  by (simp_all add: subnet_eval)

lemma validateDevice_wan_lan_example:
  "validateDevice cfgWanLan False [] = Inr \<lparr>valid = False, err = ''WAN and LAN IP addresses have an overlap''\<rparr>"
  by (simp add: validateDevice_eval cfgWanLan_def wanTen_def lan1_def)

lemma validateDevice_disjoint_example:
  "validateDevice cfgDisjoint False [] = Inr \<lparr>valid = True, err = []\<rparr>"
  by (simp add: validateDevice_eval cfgDisjoint_def wanTen_def lan2_def)

text \<open>
  C4, as stated, fails: a device whose two assigned LAN interfaces have the overlapping
  subnets 10.0.0.0/24 and 10.0.0.128/25, beside a WAN interface elsewhere, is accepted.
\<close>

theorem validateDevice_lan_lan_accepted:
  "validateDevice cfgLanLan False [] = Inr \<lparr>valid = True, err = []\<rparr>
   \<and> filter (\<lambda>ifc. isAssigned ifc \<and> ifc_type ifc = ''LAN'') (interfaces cfgLanLan) = [lan0, lan1]
   \<and> subnet lan0 = ''10.0.0.0/24'' \<and> subnet lan1 = ''10.0.0.128/25''
   \<and> overlap (subnet lan0) (subnet lan1) = Some True"
  by (simp add: validateDevice_eval cfgLanLan_def wan0_def lan0_def lan1_def)

text \<open>
  C4, amended. \<open>validateDevice\<close> never accepts a device on which an assigned WAN interface
  and an assigned LAN interface have overlapping subnets, where overlap is the intersection
  of the two CIDR ranges: it returns \<^verbatim>\<open>valid: false\<close> (or raises on a malformed interface).
  It does not compare two LAN interfaces of one device with each other.
\<close>

theorem validateDevice_wan_lan_overlap:
  assumes "w \<in> set (interfaces device)" and "isAssigned w" and "ifc_type w = ''WAN''"
      and "l \<in> set (interfaces device)" and "isAssigned l" and "ifc_type l = ''LAN''"
      and "overlap (subnet w) (subnet l) = Some True"
  shows "rejected (validateDevice device checkOverlap orgSubnets)"
proof -
  define as where "as = filter isAssigned (interfaces device)"
  define ws where "ws = filter (\<lambda>ifc. ifc_type ifc = ''WAN'') as"
  define ls where "ls = filter (\<lambda>ifc. ifc_type ifc = ''LAN'') as"
  have mem: "(w, l) \<in> set (List.product ws ls)"
    using assms by (simp add: as_def ws_def ls_def)
  have hit: "checkWanLan (w, l) \<noteq> None"
    using assms(7) by (simp add: checkWanLan_def invalid_def)
  note unfold = validateDevice_unfold[OF as_def ws_def ls_def]
  show ?thesis
  proof (cases "first_some checkAssigned as")
    case (Some r)
    then have "rejected r" by (rule first_some_rejected) (rule checkAssigned_rejected)
    with Some show ?thesis unfolding unfold by (simp add: rejected_def)
  next
    case None
    obtain r where r: "first_some checkWanLan (List.product ws ls) = Some r"
      using first_some_hit[of "(w, l)" "List.product ws ls" checkWanLan] mem hit by blast
    then have "rejected r" by (rule first_some_rejected) (rule checkWanLan_rejected)
    with None r show ?thesis unfolding unfold by (simp add: rejected_def)
  qed
qed

theorem validateDevice_wan_lan_overlap_witness:
  "wanTen \<in> set (interfaces cfgWanLan) \<and> isAssigned wanTen \<and> ifc_type wanTen = ''WAN''
   \<and> lan1 \<in> set (interfaces cfgWanLan) \<and> isAssigned lan1 \<and> ifc_type lan1 = ''LAN''
   \<and> overlap (subnet wanTen) (subnet lan1) = Some True
   \<and> rejected (validateDevice cfgWanLan False [])"
proof -
  have h1: "wanTen \<in> set (interfaces cfgWanLan)" and h4: "lan1 \<in> set (interfaces cfgWanLan)"
    by (simp_all add: cfgWanLan_def)
  have h2: "isAssigned wanTen" and h3: "ifc_type wanTen = ''WAN''"
    by (simp_all add: wanTen_def mkInterface_def)
  have h5: "isAssigned lan1" and h6: "ifc_type lan1 = ''LAN''"
    by (simp_all add: lan1_def mkInterface_def)
  have h7: "overlap (subnet wanTen) (subnet lan1) = Some True"
    by (simp add: subnet_eval wanTen_def lan1_def mkInterface_def)
  from validateDevice_wan_lan_overlap[OF h1 h2 h3 h4 h5 h6 h7, of False "[]"]
  show ?thesis using h1 h2 h3 h4 h5 h6 h7 by blast
qed

text \<open>
  Without the organization-wide check, \<open>validateDevice\<close> accepts exactly the devices with
  two assigned interfaces or more, among them a WAN and a LAN interface, whose assigned
  interfaces all pass the per-interface checks and whose pairs of an assigned WAN and an
  assigned LAN interface never overlap.
\<close>

lemma first_some_None_iff: "first_some f xs = None \<longleftrightarrow> (\<forall>x\<in>set xs. f x = None)"
  by (induction xs) (auto split: option.splits)

lemma checkWanLan_None: "checkWanLan (w, l) = None \<longleftrightarrow> overlap (subnet w) (subnet l) = Some False"
  by (auto simp: checkWanLan_def invalid_def split: option.splits bool.splits)

lemma validateDevice_accepts_iff:
  "validateDevice device False orgSubnets = Inr \<lparr>valid = True, err = []\<rparr> \<longleftrightarrow>
     length (filter isAssigned (interfaces device)) \<ge> 2
     \<and> (\<exists>w\<in>set (interfaces device). isAssigned w \<and> ifc_type w = ''WAN'')
     \<and> (\<exists>l\<in>set (interfaces device). isAssigned l \<and> ifc_type l = ''LAN'')
     \<and> (\<forall>i\<in>set (interfaces device). isAssigned i \<longrightarrow> checkAssigned i = None)
     \<and> (\<forall>w\<in>set (interfaces device). \<forall>l\<in>set (interfaces device).
           isAssigned w \<and> ifc_type w = ''WAN'' \<and> isAssigned l \<and> ifc_type l = ''LAN''
           \<longrightarrow> overlap (subnet w) (subnet l) = Some False)"
proof -
  define as where "as = filter isAssigned (interfaces device)"
  define ws where "ws = filter (\<lambda>ifc. ifc_type ifc = ''WAN'') as"
  define ls where "ls = filter (\<lambda>ifc. ifc_type ifc = ''LAN'') as"
  note unfold = validateDevice_unfold[OF as_def ws_def ls_def, of False orgSubnets]
  have acc: "r \<noteq> Inr \<lparr>valid = True, err = []\<rparr>" if "rejected r" for r
    using that by (auto simp: rejected_def)
  have A: "first_some checkAssigned as = Some r \<Longrightarrow> r \<noteq> Inr \<lparr>valid = True, err = []\<rparr>" for r
    using first_some_rejected[of checkAssigned as r] checkAssigned_rejected acc by blast
  have B: "first_some checkWanLan (List.product ws ls) = Some r \<Longrightarrow> r \<noteq> Inr \<lparr>valid = True, err = []\<rparr>" for r
    using first_some_rejected[of checkWanLan "List.product ws ls" r] checkWanLan_rejected acc by blast
  have lhs: "validateDevice device False orgSubnets = Inr \<lparr>valid = True, err = []\<rparr> \<longleftrightarrow>
      length as \<ge> 2 \<and> ws \<noteq> [] \<and> ls \<noteq> [] \<and> first_some checkAssigned as = None
      \<and> first_some checkWanLan (List.product ws ls) = None"
    unfolding unfold using A B by (auto split: option.splits)
  have w: "ws \<noteq> [] \<longleftrightarrow> (\<exists>w\<in>set (interfaces device). isAssigned w \<and> ifc_type w = ''WAN'')"
    by (auto simp: ws_def as_def filter_empty_conv)
  have l: "ls \<noteq> [] \<longleftrightarrow> (\<exists>l\<in>set (interfaces device). isAssigned l \<and> ifc_type l = ''LAN'')"
    by (auto simp: ls_def as_def filter_empty_conv)
  have a: "first_some checkAssigned as = None \<longleftrightarrow> (\<forall>i\<in>set (interfaces device). isAssigned i \<longrightarrow> checkAssigned i = None)"
    by (auto simp: first_some_None_iff as_def)
  have p: "first_some checkWanLan (List.product ws ls) = None \<longleftrightarrow>
     (\<forall>w\<in>set (interfaces device). \<forall>l\<in>set (interfaces device).
           isAssigned w \<and> ifc_type w = ''WAN'' \<and> isAssigned l \<and> ifc_type l = ''LAN''
           \<longrightarrow> overlap (subnet w) (subnet l) = Some False)"
    unfolding first_some_None_iff by (auto simp: ws_def ls_def as_def checkWanLan_None)
  show ?thesis unfolding lhs w l a p by (simp add: as_def)
qed

section \<open>validateDhcpRequest\<close>

lemma uniqByFrom_length_le: "length (uniqByFrom seen f xs) \<le> length xs"
  by (induction xs arbitrary: seen) (auto intro: le_SucI)

lemma uniqByFrom_length:
  "length (uniqByFrom seen f xs) = length xs \<longleftrightarrow> distinct (map f xs) \<and> set (map f xs) \<inter> set seen = {}"
proof (induction xs arbitrary: seen)
  case Nil
  show ?case by simp
next
  case (Cons x xs)
  show ?case
  proof (cases "f x \<in> set seen")
    case True
    have "length (uniqByFrom seen f xs) \<le> length xs" by (rule uniqByFrom_length_le)
    with True show ?thesis by auto
  next
    case False
    with Cons.IH[of "f x # seen"] show ?thesis by auto
  qed
qed

lemma uniqBy_length: "length (uniqBy xs f) = length xs \<longleftrightarrow> distinct (map f xs)"
  by (simp add: uniqBy_def uniqByFrom_length)

text \<open>
  C5, as stated, fails: a request that names an unassigned LAN interface is accepted.
\<close>

theorem validateDhcpRequest_unassigned_accepted:
  "validateDhcpRequest cfgOff reqOff = Inr ()
   \<and> find (\<lambda>i. Some (pciaddr i) = dr_interface reqOff) (interfaces cfgOff) = Some lanOff
   \<and> \<not> isAssigned lanOff"
  by (simp add: validateDhcpRequest_def falsy_def uniqBy_def cfgOff_def reqOff_def wan0_def lan0_def
      lanOff_def mkInterface_def)

text \<open>
  C5, amended. \<open>validateDhcpRequest\<close> accepts a request exactly when it names an interface,
  the device has an interface with that PCI address, the first such interface is of type
  LAN (assigned or not), and no two entries of the request's \<open>macAssign\<close> list share a
  MAC, a host name or an IPv4 address; otherwise it raises.
\<close>

theorem validateDhcpRequest_accepts_iff:
  "validateDhcpRequest device dhcpRequest = Inr () \<longleftrightarrow>
     \<not> falsy (dr_interface dhcpRequest)
     \<and> (\<exists>ifc. find (\<lambda>i. Some (pciaddr i) = dr_interface dhcpRequest) (interfaces device) = Some ifc
              \<and> ifc_type ifc = ''LAN'')
     \<and> (\<exists>ma. dr_macAssign dhcpRequest = Some ma
             \<and> distinct (map mac ma) \<and> distinct (map host ma) \<and> distinct (map ipv4 ma))"
  by (auto simp: validateDhcpRequest_def uniqBy_length split: option.splits)

theorem validateDhcpRequest_accepts_iff_witness:
  "validateDhcpRequest cfgOff reqLan0 = Inr ()"
  unfolding validateDhcpRequest_accepts_iff
  by (simp add: falsy_def cfgOff_def reqLan0_def wan0_def lan0_def lanOff_def mkInterface_def)

section \<open>Deleting a device\<close>

lemma delete_unfold:
  assumes "envOrgList e = Inr orgList"
  shows "devicesIdDELETE e i st =
          (if length (filter (referencing i orgList) (tunnels st)) > 0
             then (rejectResponse ''All device tunnels must be deleted before deleting a device'', st)
             else (case filter (\<lambda>d. dev_id d = i \<and> dev_org d \<in> set orgList) (devices st) of
                     [] \<Rightarrow> (rejectResponse ''Device for deletion not found'', st)
                   | d0 # _ \<Rightarrow>
                       (case registerDevice e (account d0) (- 1) (billing st) of
                             Inl m \<Rightarrow> (rejectResponse m, st\<lparr>disconnected := machineId d0 # disconnected st\<rparr>)
                           | Inr b \<Rightarrow>
                               if commitOk e
                               then (Success 204,
                                     st\<lparr>disconnected := machineId d0 # disconnected st, billing := b,
                                         devices := filter (\<lambda>d. \<not> (dev_id d = i \<and> dev_org d \<in> set orgList))
                                                      (devices st)\<rparr>)
                               else (rejectResponse ''Transaction commit failed'', st\<lparr>disconnected := machineId d0 # disconnected st\<rparr>))))"
  unfolding devicesIdDELETE_def referencing_def[abs_def] Let_def using assms by simp

lemma delete_blocked:
  assumes e: "envOrgList e = Inr orgList"
      and t: "t \<in> set (tunnels st)" "isActive t" "deviceA t = i \<or> deviceB t = i" "tun_org t \<in> set orgList"
  shows "devicesIdDELETE e i st
           = (Reject ''All device tunnels must be deleted before deleting a device'' 500, st)"
proof -
  from t have "t \<in> set (filter (referencing i orgList) (tunnels st))"
    by (simp add: referencing_def)
  then have "length (filter (referencing i orgList) (tunnels st)) > 0"
    by (rule length_pos_if_in_set)
  then show ?thesis unfolding delete_unfold[OF e] by (simp add: rejectResponse_def)
qed

lemma delete_rejected_documents:
  assumes "fst (devicesIdDELETE e i st) = Reject m c"
  shows "devices (snd (devicesIdDELETE e i st)) = devices st
         \<and> tunnels (snd (devicesIdDELETE e i st)) = tunnels st
         \<and> billing (snd (devicesIdDELETE e i st)) = billing st"
proof (cases "envOrgList e")
  case (Inl m)
  then show ?thesis by (simp add: devicesIdDELETE_def)
next
  case (Inr orgList)
  note unf = delete_unfold[OF Inr, of i st]
  show ?thesis using assms unfolding unf
    by (simp split: if_splits list.splits sum.splits)
qed

lemma delete_succeeds:
  assumes "envOrgList e = Inr orgList" and "billingOk e" and "commitOk e"
      and d: "d \<in> set (devices st)" "dev_id d = i" "dev_org d \<in> set orgList"
      and none: "\<not> (\<exists>t\<in>set (tunnels st). isActive t \<and> (deviceA t = i \<or> deviceB t = i)
                                          \<and> tun_org t \<in> set orgList)"
  shows "fst (devicesIdDELETE e i st) = Success 204
         \<and> devices (snd (devicesIdDELETE e i st)) = filter (\<lambda>d. \<not> (dev_id d = i \<and> dev_org d \<in> set orgList)) (devices st)
         \<and> tunnels (snd (devicesIdDELETE e i st)) = tunnels st"
proof -
  have cnt: "filter (referencing i orgList) (tunnels st) = []"
    unfolding filter_empty_conv using none by (auto simp: referencing_def)
  have "d \<in> set (filter (\<lambda>d. dev_id d = i \<and> dev_org d \<in> set orgList) (devices st))"
    using d by simp
  then obtain d0 rest where f: "filter (\<lambda>d. dev_id d = i \<and> dev_org d \<in> set orgList) (devices st) = d0 # rest"
    by (cases "filter (\<lambda>d. dev_id d = i \<and> dev_org d \<in> set orgList) (devices st)") auto
  show ?thesis
    unfolding delete_unfold[OF assms(1)] using assms(2,3) cnt f by (simp add: registerDevice_def)
qed

lemmas store_eval = store0_def store1_def dev0_def devB_def tun0_def env0_def

lemma tunnelsIdDELETE_example: "tunnelsIdDELETE env0 (tun_id tun0) store0 = (Success 204, store1)"
  by (simp add: tunnelsIdDELETE_def store_eval)

text \<open>
  C7, as stated, fails: the tunnel count is restricted to the organizations the caller may
  act on. With an active tunnel of another organization at the device, the device is
  deleted.
\<close>

theorem devicesIdDELETE_foreign_tunnel:
  "tunnels storeForeign = [tunForeign] \<and> isActive tunForeign \<and> deviceA tunForeign = dev_id dev0
   \<and> fst (devicesIdDELETE env0 (dev_id dev0) storeForeign) = Success 204
   \<and> devices (snd (devicesIdDELETE env0 (dev_id dev0) storeForeign)) = [devB]
   \<and> tunnels (snd (devicesIdDELETE env0 (dev_id dev0) storeForeign)) = [tunForeign]"
  by (simp add: devicesIdDELETE_def registerDevice_def Let_def storeForeign_def tunForeign_def store_eval)

text \<open>
  C7, amended. While an active tunnel of one of the caller's organizations references the
  device as either side, \<open>devicesIdDELETE\<close> rejects the request and leaves the whole store
  as it was; whenever it rejects, the devices, the tunnels and the billing counts are
  unchanged; and when no active tunnel of the caller's organizations references the device,
  the device is in these organizations and the billing module and the commit succeed, the
  deletion succeeds and removes the device.
\<close>

theorem devicesIdDELETE_guard:
  "(envOrgList e = Inr orgList
     \<and> (\<exists>t\<in>set (tunnels st). isActive t \<and> (deviceA t = i \<or> deviceB t = i) \<and> tun_org t \<in> set orgList)
      \<longrightarrow> devicesIdDELETE e i st
            = (Reject ''All device tunnels must be deleted before deleting a device'' 500, st))
   \<and> (\<forall>m c. fst (devicesIdDELETE e i st) = Reject m c
      \<longrightarrow> devices (snd (devicesIdDELETE e i st)) = devices st
          \<and> tunnels (snd (devicesIdDELETE e i st)) = tunnels st
          \<and> billing (snd (devicesIdDELETE e i st)) = billing st)
   \<and> (envOrgList e = Inr orgList \<and> billingOk e \<and> commitOk e
       \<and> (\<exists>d\<in>set (devices st). dev_id d = i \<and> dev_org d \<in> set orgList)
       \<and> \<not> (\<exists>t\<in>set (tunnels st). isActive t \<and> (deviceA t = i \<or> deviceB t = i) \<and> tun_org t \<in> set orgList)
      \<longrightarrow> fst (devicesIdDELETE e i st) = Success 204
          \<and> devices (snd (devicesIdDELETE e i st))
              = filter (\<lambda>d. \<not> (dev_id d = i \<and> dev_org d \<in> set orgList)) (devices st)
          \<and> tunnels (snd (devicesIdDELETE e i st)) = tunnels st)"
proof (intro conjI impI allI)
  assume a: "envOrgList e = Inr orgList
     \<and> (\<exists>t\<in>set (tunnels st). isActive t \<and> (deviceA t = i \<or> deviceB t = i) \<and> tun_org t \<in> set orgList)"
  then obtain t where t: "t \<in> set (tunnels st)" "isActive t" "deviceA t = i \<or> deviceB t = i"
      "tun_org t \<in> set orgList"
    by blast
  from a have e: "envOrgList e = Inr orgList" by simp
  show "devicesIdDELETE e i st
          = (Reject ''All device tunnels must be deleted before deleting a device'' 500, st)"
    by (rule delete_blocked[OF e t])
next
  fix m c assume r: "fst (devicesIdDELETE e i st) = Reject m c"
  from delete_rejected_documents[OF r]
  show "devices (snd (devicesIdDELETE e i st)) = devices st"
    and "tunnels (snd (devicesIdDELETE e i st)) = tunnels st"
    and "billing (snd (devicesIdDELETE e i st)) = billing st" by simp_all
next
  assume a: "envOrgList e = Inr orgList \<and> billingOk e \<and> commitOk e
       \<and> (\<exists>d\<in>set (devices st). dev_id d = i \<and> dev_org d \<in> set orgList)
       \<and> \<not> (\<exists>t\<in>set (tunnels st). isActive t \<and> (deviceA t = i \<or> deviceB t = i) \<and> tun_org t \<in> set orgList)"
  then obtain d where d: "d \<in> set (devices st)" "dev_id d = i" "dev_org d \<in> set orgList" by blast
  from a have e: "envOrgList e = Inr orgList" "billingOk e" "commitOk e"
    and n: "\<not> (\<exists>t\<in>set (tunnels st). isActive t \<and> (deviceA t = i \<or> deviceB t = i)
                                   \<and> tun_org t \<in> set orgList)" by simp_all
  from delete_succeeds[OF e d n]
  show "fst (devicesIdDELETE e i st) = Success 204"
    and "devices (snd (devicesIdDELETE e i st))
              = filter (\<lambda>d. \<not> (dev_id d = i \<and> dev_org d \<in> set orgList)) (devices st)"
    and "tunnels (snd (devicesIdDELETE e i st)) = tunnels st" by simp_all
qed

theorem devicesIdDELETE_guard_witness:
  "envOrgList env0 = Inr [''org1'']
   \<and> (\<exists>t\<in>set (tunnels store0). isActive t \<and> deviceA t = dev_id dev0 \<and> tun_org t \<in> set [''org1''])
   \<and> devicesIdDELETE env0 (dev_id dev0) store0
       = (Reject ''All device tunnels must be deleted before deleting a device'' 500, store0)
   \<and> snd (tunnelsIdDELETE env0 (tun_id tun0) store0) = store1
   \<and> fst (devicesIdDELETE env0 (dev_id dev0) store1) = Success 204
   \<and> devices (snd (devicesIdDELETE env0 (dev_id dev0) store1)) = [devB]"
proof -
  have act: "\<exists>t\<in>set (tunnels store0). isActive t \<and> (deviceA t = dev_id dev0 \<or> deviceB t = dev_id dev0)
                \<and> tun_org t \<in> set [''org1'']"
    by (simp add: store_eval)
  have act': "\<exists>t\<in>set (tunnels store0). isActive t \<and> deviceA t = dev_id dev0 \<and> tun_org t \<in> set [''org1'']"
    by (simp add: store_eval)
  have e: "envOrgList env0 = Inr [''org1'']" "billingOk env0" "commitOk env0"
    by (simp_all add: env0_def)
  have d: "\<exists>d\<in>set (devices store1). dev_id d = dev_id dev0 \<and> dev_org d \<in> set [''org1'']"
    by (simp add: store_eval)
  have n: "\<not> (\<exists>t\<in>set (tunnels store1). isActive t \<and> (deviceA t = dev_id dev0 \<or> deviceB t = dev_id dev0)
                \<and> tun_org t \<in> set [''org1''])"
    by (simp add: store_eval)
  have f: "filter (\<lambda>d. \<not> (dev_id d = dev_id dev0 \<and> dev_org d \<in> set [''org1''])) (devices store1) = [devB]"
    by (simp add: store_eval)
  have t: "snd (tunnelsIdDELETE env0 (tun_id tun0) store0) = store1"
    by (simp add: tunnelsIdDELETE_example)
  note g0 = devicesIdDELETE_guard[of env0 "[''org1'']" store0 "dev_id dev0"]
  note g1 = devicesIdDELETE_guard[of env0 "[''org1'']" store1 "dev_id dev0"]
  from g0 e(1) act have r: "devicesIdDELETE env0 (dev_id dev0) store0
       = (Reject ''All device tunnels must be deleted before deleting a device'' 500, store0)" by blast
  from g1 e d n have s: "fst (devicesIdDELETE env0 (dev_id dev0) store1) = Success 204
     \<and> devices (snd (devicesIdDELETE env0 (dev_id dev0) store1))
         = filter (\<lambda>d. \<not> (dev_id d = dev_id dev0 \<and> dev_org d \<in> set [''org1''])) (devices store1)" by blast
  from e(1) act' r t s f show ?thesis by simp
qed

section \<open>Adding a DHCP server\<close>

lemma post_unfold:
  assumes "envOrgList e = Inr orgList"
      and "find (\<lambda>d. dev_id d = i \<and> dev_org d \<in> set orgList) (devices st) = Some deviceObject"
      and "isApproved deviceObject"
      and "validateDhcpRequest deviceObject dhcpRequest = Inr u"
  shows "devicesIdDhcpPOST e i dhcpRequest st =
          (if length (filter (\<lambda>s. Some (dhcp_interface s) = dr_interface dhcpRequest) (dhcp deviceObject)) > 0
           then (rejectResponse ''DHCP already configured for that interface'', st)
           else if \<not> commitOk e then (rejectResponse ''Transaction commit failed'', st)
           else (case dispatcherResult e of Inl m \<Rightarrow> rejectResponse m | Inr ids \<Rightarrow> Success 202,
                 st\<lparr>devices := findOneAndUpdate (\<lambda>d. dev_id d = dev_id deviceObject)
                       (push_dhcp \<lparr>dhcp_id = newId e,
                                   dhcp_interface = orEmpty (dr_interface dhcpRequest),
                                   rangeStart = dr_rangeStart dhcpRequest,
                                   rangeEnd = dr_rangeEnd dhcpRequest,
                                   dns = dr_dns dhcpRequest,
                                   macAssign = orEmpty (dr_macAssign dhcpRequest),
                                   dhcp_status = ''add-wait''\<rparr>) (devices st),
                    dispatched := dispatched st @
                       [\<lparr>dc_devices = [dev_id deviceObject], dc_method = ''dhcp'', dc_org = firstOrg orgList\<rparr>]\<rparr>))"
  unfolding devicesIdDhcpPOST_def Let_def using assms by (simp split: sum.splits)

lemma post_early:
  assumes "envOrgList e = Inl m \<or>
           (\<exists>orgList. envOrgList e = Inr orgList \<and>
              (case find (\<lambda>d. dev_id d = i \<and> dev_org d \<in> set orgList) (devices st) of
                 None \<Rightarrow> True
               | Some deviceObject \<Rightarrow> \<not> isApproved deviceObject \<or> isl (validateDhcpRequest deviceObject dhcpRequest)))"
  shows "\<exists>m. devicesIdDhcpPOST e i dhcpRequest st = (Reject m 500, st)"
  using assms unfolding devicesIdDhcpPOST_def
  by (auto simp: rejectResponse_def isl_def split: option.splits)

lemma post_duplicate_rejected:
  assumes e: "envOrgList e = Inr orgList"
      and f: "find (\<lambda>d. dev_id d = i \<and> dev_org d \<in> set orgList) (devices st) = Some deviceObject"
      and s: "s \<in> set (dhcp deviceObject)" "Some (dhcp_interface s) = dr_interface dhcpRequest"
  shows "\<exists>m. devicesIdDhcpPOST e i dhcpRequest st = (Reject m 500, st)"
proof (cases "isApproved deviceObject \<and> \<not> isl (validateDhcpRequest deviceObject dhcpRequest)")
  case False
  with e f show ?thesis by (intro post_early) auto
next
  case True
  then obtain u where v: "validateDhcpRequest deviceObject dhcpRequest = Inr u"
    by (cases "validateDhcpRequest deviceObject dhcpRequest") auto
  from s have "s \<in> set (filter (\<lambda>s. Some (dhcp_interface s) = dr_interface dhcpRequest) (dhcp deviceObject))"
    by simp
  then have "length (filter (\<lambda>s. Some (dhcp_interface s) = dr_interface dhcpRequest) (dhcp deviceObject)) > 0"
    by (rule length_pos_if_in_set)
  then show ?thesis
    unfolding post_unfold[OF e f conjunct1[OF True] v] by (simp add: rejectResponse_def)
qed

lemma findOneAndUpdate_list_all:
  assumes "list_all Q ds" and "\<And>d. d \<in> set ds \<Longrightarrow> q d \<Longrightarrow> Q (u d)"
  shows "list_all Q (findOneAndUpdate q u ds)"
  using assms by (induction ds) auto

lemma find_SomeD: "find P xs = Some x \<Longrightarrow> x \<in> set xs \<and> P x"
  by (induction xs) (auto split: if_splits)

lemma validateDhcpRequest_names: "validateDhcpRequest d r = Inr u \<Longrightarrow> \<exists>y. dr_interface r = Some y"
  by (cases "dr_interface r") (auto simp: validateDhcpRequest_def falsy_def)

lemma post_keeps_onePerInterface:
  assumes ids: "distinct (map dev_id (devices st))" and inv: "onePerInterface (devices st)"
  shows "onePerInterface (devices (snd (devicesIdDhcpPOST e i dhcpRequest st)))"
proof (cases "\<exists>m. devicesIdDhcpPOST e i dhcpRequest st = (Reject m 500, st)")
  case True
  with inv show ?thesis by auto
next
  case False
  then obtain orgList where e: "envOrgList e = Inr orgList"
    using post_early[where e=e and i=i and st=st and dhcpRequest=dhcpRequest] by (cases "envOrgList e") auto
  from False e obtain deviceObject where
    f: "find (\<lambda>d. dev_id d = i \<and> dev_org d \<in> set orgList) (devices st) = Some deviceObject"
    using post_early[where e=e and i=i and st=st and dhcpRequest=dhcpRequest]
    by (cases "find (\<lambda>d. dev_id d = i \<and> dev_org d \<in> set orgList) (devices st)") auto
  from False e f have ok: "isApproved deviceObject" "\<not> isl (validateDhcpRequest deviceObject dhcpRequest)"
    using post_early[where e=e and i=i and st=st and dhcpRequest=dhcpRequest] by auto
  then obtain u where v: "validateDhcpRequest deviceObject dhcpRequest = Inr u"
    by (cases "validateDhcpRequest deviceObject dhcpRequest") auto
  then obtain y where y: "dr_interface dhcpRequest = Some y"
    using validateDhcpRequest_names by blast
  note unf = post_unfold[OF e f ok(1) v]
  from False have none: "filter (\<lambda>s. Some (dhcp_interface s) = dr_interface dhcpRequest) (dhcp deviceObject) = []"
    unfolding unf by (auto simp: rejectResponse_def split: if_splits)
  have mem: "deviceObject \<in> set (devices st)" using find_SomeD[OF f] by simp
  define x where "x = \<lparr>dhcp_id = newId e, dhcp_interface = orEmpty (dr_interface dhcpRequest),
       rangeStart = dr_rangeStart dhcpRequest, rangeEnd = dr_rangeEnd dhcpRequest, dns = dr_dns dhcpRequest,
       macAssign = orEmpty (dr_macAssign dhcpRequest), dhcp_status = ''add-wait''\<rparr>"
  have xi: "dhcp_interface x = y" by (simp add: x_def y orEmpty_def)
  have fresh: "y \<notin> set (map dhcp_interface (dhcp deviceObject))"
    using none unfolding filter_empty_conv y by auto
  have step: "Q (push_dhcp x d)" if "d \<in> set (devices st)" "dev_id d = dev_id deviceObject"
    and "Q = (\<lambda>d. distinct (map dhcp_interface (dhcp d)))" for d Q
  proof -
    from ids that(1,2) mem have "d = deviceObject"
      by (meson distinct_map inj_onD)
    moreover from inv mem have "distinct (map dhcp_interface (dhcp deviceObject))"
      by (simp add: onePerInterface_def list_all_iff)
    ultimately show ?thesis using fresh xi that(3) by (simp add: push_dhcp_def)
  qed
  have upd: "list_all (\<lambda>d. distinct (map dhcp_interface (dhcp d)))
          (findOneAndUpdate (\<lambda>d. dev_id d = dev_id deviceObject) (push_dhcp x) (devices st))"
    by (rule findOneAndUpdate_list_all) (use inv step in \<open>auto simp: onePerInterface_def\<close>)
  show ?thesis
    unfolding unf using upd inv none by (simp add: onePerInterface_def x_def)
qed

text \<open>A request for an interface without a DHCP server is stored in status \<open>add-wait\<close> and dispatched.\<close>

lemma devicesIdDhcpPOST_example:
  "fst (devicesIdDhcpPOST env0 (dev_id devB) reqLan2 store0) = Success 202
   \<and> map (\<lambda>d. map dhcp_status (dhcp d)) (devices (snd (devicesIdDhcpPOST env0 (dev_id devB) reqLan2 store0)))
       = [[''add-wait'', ''del-wait''], [''add-wait'']]
   \<and> map dc_method (dispatched (snd (devicesIdDhcpPOST env0 (dev_id devB) reqLan2 store0))) = [''dhcp'']"
  by (simp add: devicesIdDhcpPOST_def validateDhcpRequest_def falsy_def uniqBy_def orEmpty_def push_dhcp_def
      Let_def store_eval reqLan2_def wanTen_def lan2_def dhcpAdd_def dhcpDel_def mkInterface_def)

text \<open>
  C10, as stated, fails in its last clause: a device can come to store two DHCP entries
  for one interface. \<open>devicesIdDhcpDhcpIdPUT\<close> does not look at the other entries: on a
  device with one entry per interface, modifying the second entry to the interface of the
  first is accepted and stored, for an agent of version 2 and of version 1 alike.
\<close>

theorem devicesIdDhcpDhcpIdPUT_duplicates:
  "onePerInterface (devices storeDone)
   \<and> fst (devicesIdDhcpDhcpIdPUT env0 2 [] (dev_id dev0) (dhcp_id dhcpDel) (Some (dhcp_id dhcpDel))
            reqLan0 storeDone) = Some (Success 202)
   \<and> map (\<lambda>d. map dhcp_interface (dhcp d))
        (devices (snd (devicesIdDhcpDhcpIdPUT env0 2 [] (dev_id dev0) (dhcp_id dhcpDel)
                         (Some (dhcp_id dhcpDel)) reqLan0 storeDone)))
       = [[''0000:00:08.00'', ''0000:00:08.00''], []]
   \<and> fst (devicesIdDhcpDhcpIdPUT env0 1 [] (dev_id dev0) (dhcp_id dhcpDel) (Some (dhcp_id dhcpDel))
            reqLan0 storeDone) = Some (Success 202)
   \<and> map (\<lambda>d. map dhcp_interface (dhcp d))
        (devices (snd (devicesIdDhcpDhcpIdPUT env0 1 [] (dev_id dev0) (dhcp_id dhcpDel)
                         (Some (dhcp_id dhcpDel)) reqLan0 storeDone)))
       = [[''0000:00:08.00'', ''0000:00:08.00''], []]"
  by (simp add: devicesIdDhcpDhcpIdPUT_def onePerInterface_def isEqualDhcp_def set_dhcp_def
      validateDhcpRequest_def falsy_def uniqBy_def orEmpty_def firstOrg_def Let_def
      storeDone_def store_eval reqLan0_def dhcpAdd_def dhcpDel_def wan0_def lan0_def lan1_def
      mkInterface_def)

text \<open>
  C10, amended. When a stored DHCP entry of the device already names the interface of the
  request, \<open>devicesIdDhcpPOST\<close> rejects and leaves the whole store as it was, so no entry
  is added and the dispatcher is not called; and the operation itself never adds a second
  entry for an interface: where device ids are unique and every device has one DHCP entry
  per interface at most, the same holds after it. Other operations are not covered.
\<close>

theorem devicesIdDhcpPOST_one_per_interface:
  "(envOrgList e = Inr orgList
     \<and> find (\<lambda>d. dev_id d = i \<and> dev_org d \<in> set orgList) (devices st) = Some deviceObject
     \<and> (\<exists>s\<in>set (dhcp deviceObject). Some (dhcp_interface s) = dr_interface dhcpRequest)
     \<longrightarrow> (\<exists>m. devicesIdDhcpPOST e i dhcpRequest st = (Reject m 500, st)))
   \<and> (distinct (map dev_id (devices st)) \<and> onePerInterface (devices st)
     \<longrightarrow> onePerInterface (devices (snd (devicesIdDhcpPOST e i dhcpRequest st))))"
proof (intro conjI impI)
  assume a: "envOrgList e = Inr orgList
     \<and> find (\<lambda>d. dev_id d = i \<and> dev_org d \<in> set orgList) (devices st) = Some deviceObject
     \<and> (\<exists>s\<in>set (dhcp deviceObject). Some (dhcp_interface s) = dr_interface dhcpRequest)"
  then obtain s where s: "s \<in> set (dhcp deviceObject)" "Some (dhcp_interface s) = dr_interface dhcpRequest"
    by blast
  from a have e: "envOrgList e = Inr orgList"
    and f: "find (\<lambda>d. dev_id d = i \<and> dev_org d \<in> set orgList) (devices st) = Some deviceObject"
    by simp_all
  from e f s show "\<exists>m. devicesIdDhcpPOST e i dhcpRequest st = (Reject m 500, st)"
    by (rule post_duplicate_rejected)
next
  assume "distinct (map dev_id (devices st)) \<and> onePerInterface (devices st)"
  then show "onePerInterface (devices (snd (devicesIdDhcpPOST e i dhcpRequest st)))"
    using post_keeps_onePerInterface by blast
qed

theorem devicesIdDhcpPOST_one_per_interface_witness:
  "envOrgList env0 = Inr [''org1'']
   \<and> find (\<lambda>d. dev_id d = dev_id dev0 \<and> dev_org d \<in> set [''org1'']) (devices store0) = Some dev0
   \<and> (\<exists>s\<in>set (dhcp dev0). Some (dhcp_interface s) = dr_interface reqLan0)
   \<and> (\<exists>m. devicesIdDhcpPOST env0 (dev_id dev0) reqLan0 store0 = (Reject m 500, store0))
   \<and> distinct (map dev_id (devices store0)) \<and> onePerInterface (devices store0)
   \<and> onePerInterface (devices (snd (devicesIdDhcpPOST env0 (dev_id devB) reqLan2 store0)))"
proof -
  have e: "envOrgList env0 = Inr [''org1'']" by (simp add: env0_def)
  have f: "find (\<lambda>d. dev_id d = dev_id dev0 \<and> dev_org d \<in> set [''org1'']) (devices store0) = Some dev0"
    by (simp add: store0_def dev0_def)
  have s: "\<exists>s\<in>set (dhcp dev0). Some (dhcp_interface s) = dr_interface reqLan0"
    by (simp add: dev0_def dhcpAdd_def reqLan0_def)
  have d: "distinct (map dev_id (devices store0))" by (simp add: store0_def dev0_def devB_def)
  have o: "onePerInterface (devices store0)"
    by (simp add: onePerInterface_def store0_def dev0_def devB_def dhcpAdd_def dhcpDel_def)
  from devicesIdDhcpPOST_one_per_interface[of env0 "[''org1'']" "dev_id dev0" store0 dev0 reqLan0] e f s
  have r: "\<exists>m. devicesIdDhcpPOST env0 (dev_id dev0) reqLan0 store0 = (Reject m 500, store0)" by blast
  from devicesIdDhcpPOST_one_per_interface[of env0 "[''org1'']" "dev_id devB" store0 dev0 reqLan2] d o
  have k: "onePerInterface (devices (snd (devicesIdDhcpPOST env0 (dev_id devB) reqLan2 store0)))" by blast
  from e f s r d o k show ?thesis by blast
qed

section \<open>Modifying a device\<close>

lemma promiseAll_Inl:
  assumes "x \<in> set xs" and "isl (f x)"
  shows "isl (promiseAll (map f xs))"
  using assms by (induction xs) (auto split: sum.splits)

lemma mergeInterface_unassign:
  assumes "find (\<lambda>rif. ifc_id origIntf = ifc_id rif) rifs = Some updIntf"
      and "isAssigned origIntf" and "\<not> isAssigned updIntf"
      and "numTunnels tuns (ifc_id origIntf) > 0"
  shows "isl (mergeInterface e tuns rifs origIntf)"
  using assms by (simp add: mergeInterface_def Let_def)

lemma numLabelTunnels_Nil: "numLabelTunnels tuns i [] = 0"
  by (induction tuns) (auto simp: numLabelTunnels_def split: option.splits)

lemma mergeInterface_label:
  assumes "find (\<lambda>rif. ifc_id origIntf = ifc_id rif) rifs = Some updIntf"
      and "isAssigned origIntf" and "isAssigned updIntf"
      and "numLabelTunnels tuns (ifc_id origIntf)
             (filter (\<lambda>p. p \<notin> set (orEmpty (pathlabels updIntf))) (orEmpty (pathlabels origIntf))) > 0"
  shows "isl (mergeInterface e tuns rifs origIntf)"
proof -
  have "filter (\<lambda>p. p \<notin> set (orEmpty (pathlabels updIntf))) (orEmpty (pathlabels origIntf)) \<noteq> []"
    using assms(4) numLabelTunnels_Nil by fastforce
  with assms show ?thesis by (simp add: mergeInterface_def Let_def)
qed

lemma put_merge_fails:
  assumes "isl (mergeInterfaces e (tunnels st) deviceRequest origDevice)"
      and "envOrgList e = Inr orgList"
      and "find (\<lambda>d. dev_id d = i \<and> dev_org d \<in> set orgList) (devices st) = Some origDevice"
  shows "\<exists>m. devicesIdPUT e i deviceRequest st = (Reject m 500, st)"
proof -
  from assms(1) obtain m where "mergeInterfaces e (tunnels st) deviceRequest origDevice = Inl m"
    by (cases "mergeInterfaces e (tunnels st) deviceRequest origDevice") auto
  with assms(2,3) show ?thesis
    by (simp add: devicesIdPUT_def rejectResponse_def Let_def)
qed

text \<open>
  C6. When a validation of the intent fails, that is, the device to validate (the request
  with its interfaces merged into the stored ones) is not accepted by \<open>validateDevice\<close>,
  or one of the request's DHCP entries or the DHCP configuration check fails,
  \<open>devicesIdPUT\<close> rejects the request and leaves the whole store as it was: no document
  is updated and the dispatcher is not called, so no job exists for the request.
\<close>

theorem devicesIdPUT_invalid_rejected:
  assumes e: "envOrgList e = Inr orgList"
      and f: "find (\<lambda>d. dev_id d = i \<and> dev_org d \<in> set orgList) (devices st) = Some origDevice"
      and m: "mergeInterfaces e (tunnels st) deviceRequest origDevice = Inr merged"
      and r: "isl (validateDhcpRequests (deviceToValidate deviceRequest origDevice merged)
                     (orEmpty (rq_dhcp deviceRequest)))
              \<or> isl (checkDhcpConfig e origDevice (deviceRequest\<lparr>rq_interfaces := merged\<rparr>))
              \<or> rejected (validateDevice (deviceToValidate deviceRequest origDevice merged)
                            (isRunning e) (orgLanSubnets e))"
  shows "\<exists>m. devicesIdPUT e i deviceRequest st = (Reject m 500, st)"
proof -
  define dtv where "dtv = deviceToValidate deviceRequest origDevice merged"
  have unf: "devicesIdPUT e i deviceRequest st =
     (if \<not> isApproved origDevice \<and> rq_isApproved deviceRequest \<noteq> Some True
      then (rejectResponse ''Device must be first approved'', st)
      else case validateDhcpRequests dtv (orEmpty (rq_dhcp deviceRequest)) of
        Inl m \<Rightarrow> (rejectResponse m, st)
      | Inr _ \<Rightarrow>
     (case checkDhcpConfig e origDevice (deviceRequest\<lparr>rq_interfaces := merged\<rparr>) of
        Inl m \<Rightarrow> (rejectResponse m, st)
      | Inr _ \<Rightarrow>
     (case validateDevice dtv (isRunning e) (orgLanSubnets e) of
        Inl m \<Rightarrow> (rejectResponse m, st)
      | Inr v \<Rightarrow>
     if \<not> valid v then (rejectResponse (err v), st)
     else devicesIdPUT e i deviceRequest st)))"
    unfolding dtv_def
    by (simp add: devicesIdPUT_def[of e i deviceRequest st] e f m Let_def split: sum.splits)
  note r' = r[folded dtv_def]
  have rej: "\<exists>m'. rejectResponse x = Reject m' 500" for x by (simp add: rejectResponse_def)
  show ?thesis
  proof (cases "\<not> isApproved origDevice \<and> rq_isApproved deviceRequest \<noteq> Some True")
    case True
    then show ?thesis by (subst unf) (simp add: rej)
  next
    case na: False
    show ?thesis
    proof (cases "validateDhcpRequests dtv (orEmpty (rq_dhcp deviceRequest))")
      case (Inl x)
      with na show ?thesis by (subst unf) (simp add: rej)
    next
      case v1: (Inr u)
      show ?thesis
      proof (cases "checkDhcpConfig e origDevice (deviceRequest\<lparr>rq_interfaces := merged\<rparr>)")
        case (Inl x)
        with na v1 show ?thesis by (subst unf) (simp add: rej)
      next
        case v2: (Inr u2)
        show ?thesis
        proof (cases "validateDevice dtv (isRunning e) (orgLanSubnets e)")
          case (Inl x)
          with na v1 v2 show ?thesis by (subst unf) (simp add: rej)
        next
          case (Inr v)
          with r' v1 v2 have "\<not> valid v" by (simp add: rejected_def)
          with na v1 v2 Inr show ?thesis by (subst unf) (simp add: rej)
        qed
      qed
    qed
  qed
qed

lemma numTunnels_pos:
  assumes "t \<in> set tuns" and "isActive t" and "interfaceA t = x \<or> interfaceB t = x"
  shows "numTunnels tuns x > 0"
proof -
  from assms have "t \<in> set (filter (\<lambda>t. isActive t \<and> (interfaceA t = x \<or> interfaceB t = x)) tuns)"
    by simp
  then show ?thesis unfolding numTunnels_def by (rule length_pos_if_in_set)
qed

lemma numLabelTunnels_pos:
  assumes "t \<in> set tuns" and "isActive t" and "interfaceA t = x \<or> interfaceB t = x"
      and "pathlabel t = Some l" and "l \<in> set ls"
  shows "numLabelTunnels tuns x ls > 0"
proof -
  from assms have "t \<in> set (filter (\<lambda>t. isActive t \<and> (interfaceA t = x \<or> interfaceB t = x)
                          \<and> (case pathlabel t of None \<Rightarrow> False | Some l \<Rightarrow> l \<in> set ls)) tuns)"
    by simp
  then show ?thesis unfolding numLabelTunnels_def by (rule length_pos_if_in_set)
qed

text \<open>
  C8. When the request unassigns a stored assigned interface at which an active tunnel ends,
  or keeps it assigned but drops one of its path labels that an active tunnel at that
  interface carries, \<open>devicesIdPUT\<close> rejects the request and leaves the whole store as it
  was.
\<close>

theorem devicesIdPUT_tunnel_guard:
  assumes e: "envOrgList e = Inr orgList"
      and f: "find (\<lambda>d. dev_id d = i \<and> dev_org d \<in> set orgList) (devices st) = Some origDevice"
      and r: "rq_interfaces deviceRequest = Some rifs"
      and o: "origIntf \<in> set (interfaces origDevice)" "isAssigned origIntf"
      and u: "find (\<lambda>rif. ifc_id origIntf = ifc_id rif) rifs = Some updIntf"
      and c: "(\<not> isAssigned updIntf
                \<and> (\<exists>t\<in>set (tunnels st). isActive t
                      \<and> (interfaceA t = ifc_id origIntf \<or> interfaceB t = ifc_id origIntf)))
              \<or> (isAssigned updIntf
                \<and> (\<exists>t\<in>set (tunnels st). \<exists>l\<in>set (orEmpty (pathlabels origIntf)).
                      isActive t \<and> (interfaceA t = ifc_id origIntf \<or> interfaceB t = ifc_id origIntf)
                      \<and> pathlabel t = Some l \<and> l \<notin> set (orEmpty (pathlabels updIntf))))"
  shows "\<exists>m. devicesIdPUT e i deviceRequest st = (Reject m 500, st)"
proof -
  have one: "isl (mergeInterface e (tunnels st) rifs origIntf)"
    using c
  proof
    assume a: "\<not> isAssigned updIntf
                \<and> (\<exists>t\<in>set (tunnels st). isActive t
                      \<and> (interfaceA t = ifc_id origIntf \<or> interfaceB t = ifc_id origIntf))"
    then have nt: "numTunnels (tunnels st) (ifc_id origIntf) > 0" using numTunnels_pos by blast
    from a have na: "\<not> isAssigned updIntf" by simp
    show ?thesis by (rule mergeInterface_unassign[OF u o(2) na nt])
  next
    assume a: "isAssigned updIntf
                \<and> (\<exists>t\<in>set (tunnels st). \<exists>l\<in>set (orEmpty (pathlabels origIntf)).
                      isActive t \<and> (interfaceA t = ifc_id origIntf \<or> interfaceB t = ifc_id origIntf)
                      \<and> pathlabel t = Some l \<and> l \<notin> set (orEmpty (pathlabels updIntf)))"
    then obtain t l where t: "t \<in> set (tunnels st)" "isActive t"
        "interfaceA t = ifc_id origIntf \<or> interfaceB t = ifc_id origIntf" "pathlabel t = Some l"
      and l: "l \<in> set (orEmpty (pathlabels origIntf))" "l \<notin> set (orEmpty (pathlabels updIntf))"
      by blast
    from l have "l \<in> set (filter (\<lambda>p. p \<notin> set (orEmpty (pathlabels updIntf))) (orEmpty (pathlabels origIntf)))"
      by simp
    then have nt: "numLabelTunnels (tunnels st) (ifc_id origIntf)
             (filter (\<lambda>p. p \<notin> set (orEmpty (pathlabels updIntf))) (orEmpty (pathlabels origIntf))) > 0"
      by (rule numLabelTunnels_pos[OF t])
    from a have ia: "isAssigned updIntf" by simp
    show ?thesis by (rule mergeInterface_label[OF u o(2) ia nt])
  qed
  have "isl (promiseAll (map (mergeInterface e (tunnels st) rifs) (interfaces origDevice)))"
    using o(1) one by (rule promiseAll_Inl)
  then have "isl (mergeInterfaces e (tunnels st) deviceRequest origDevice)"
    by (auto simp: mergeInterfaces_def r split: sum.splits)
  then show ?thesis using e f by (rule put_merge_fails)
qed

lemmas put_eval = devicesIdPUT_def deviceToValidate_def orgLanSubnets_def mergeInterfaces_def
  mergeInterface_def linuxParams_def numTunnels_def
  numLabelTunnels_def orEmpty_def checkDhcpConfig_def acceptAll_def rejectResponse_def

lemma merge_gw:
  "mergeInterfaces env0 (tunnels store0) reqGw dev0 = Inr (Some [wan0, lanGw\<lparr>modified := True\<rparr>, lan1])"
  by (simp add: put_eval store_eval reqGw_def lanGw_def wan0_def lan0_def lan1_def mkInterface_def)

lemma put_gw:
  "devicesIdPUT env0 (dev_id dev0) reqGw store0
     = (Reject ''LAN interfaces should not be assigned a default GW'' 500, store0)"
  by (simp add: put_eval validateDevice_eval store_eval reqGw_def lanGw_def wan0_def lan0_def lan1_def)

lemma put_unassign:
  "devicesIdPUT env0 (dev_id dev0) reqUnassign store0
     = (Reject ''Unassigned interface used by existing tunnels, please delete related tunnels before'' 500, store0)"
  by (simp add: put_eval store_eval reqUnassign_def wan0_def lan0_def lan1_def mkInterface_def)

lemma put_unlabel:
  "devicesIdPUT env0 (dev_id dev0) reqUnlabel storeL
     = (Reject ''Removed label used by existing tunnels, please delete related tunnels before'' 500, storeL)"
  by (simp add: put_eval store_eval storeL_def reqUnlabel_def wanLabel_def wan0_def lan0_def lan1_def mkInterface_def)

theorem devicesIdPUT_invalid_rejected_witness:
  "envOrgList env0 = Inr [''org1'']
   \<and> find (\<lambda>d. dev_id d = dev_id dev0 \<and> dev_org d \<in> set [''org1'']) (devices store0) = Some dev0
   \<and> mergeInterfaces env0 (tunnels store0) reqGw dev0 = Inr (Some [wan0, lanGw\<lparr>modified := True\<rparr>, lan1])
   \<and> validateDevice (deviceToValidate reqGw dev0 (Some [wan0, lanGw\<lparr>modified := True\<rparr>, lan1]))
         (isRunning env0) (orgLanSubnets env0)
       = Inr \<lparr>valid = False, err = ''LAN interfaces should not be assigned a default GW''\<rparr>
   \<and> (\<exists>m. devicesIdPUT env0 (dev_id dev0) reqGw store0 = (Reject m 500, store0))
   \<and> dispatched store0 = []"
proof -
  have e: "envOrgList env0 = Inr [''org1'']" by (simp add: env0_def)
  have f: "find (\<lambda>d. dev_id d = dev_id dev0 \<and> dev_org d \<in> set [''org1'']) (devices store0) = Some dev0"
    by (simp add: store0_def dev0_def)
  note m = merge_gw
  have v: "validateDevice (deviceToValidate reqGw dev0 (Some [wan0, lanGw\<lparr>modified := True\<rparr>, lan1]))
         (isRunning env0) (orgLanSubnets env0)
       = Inr \<lparr>valid = False, err = ''LAN interfaces should not be assigned a default GW''\<rparr>"
    by (simp add: validateDevice_eval deviceToValidate_def orgLanSubnets_def env0_def reqGw_def lanGw_def
        wan0_def lan0_def lan1_def)
  then have r: "rejected (validateDevice (deviceToValidate reqGw dev0 (Some [wan0, lanGw\<lparr>modified := True\<rparr>, lan1]))
         (isRunning env0) (orgLanSubnets env0))"
    by (simp add: rejected_def)
  have d: "dispatched store0 = []" by (simp add: store0_def)
  from devicesIdPUT_invalid_rejected[OF e f m disjI2[OF disjI2[OF r]]]
  have "\<exists>m. devicesIdPUT env0 (dev_id dev0) reqGw store0 = (Reject m 500, store0)" .
  with e f m v d show ?thesis by blast
qed

theorem devicesIdPUT_tunnel_guard_witness:
  "envOrgList env0 = Inr [''org1'']
   \<and> find (\<lambda>d. dev_id d = dev_id dev0 \<and> dev_org d \<in> set [''org1'']) (devices store0) = Some dev0
   \<and> rq_interfaces reqUnassign = Some [wan0\<lparr>isAssigned := False\<rparr>]
   \<and> wan0 \<in> set (interfaces dev0) \<and> isAssigned wan0
   \<and> find (\<lambda>rif. ifc_id wan0 = ifc_id rif) [wan0\<lparr>isAssigned := False\<rparr>] = Some (wan0\<lparr>isAssigned := False\<rparr>)
   \<and> \<not> isAssigned (wan0\<lparr>isAssigned := False\<rparr>)
   \<and> (\<exists>t\<in>set (tunnels store0). isActive t \<and> (interfaceA t = ifc_id wan0 \<or> interfaceB t = ifc_id wan0))
   \<and> (\<exists>m. devicesIdPUT env0 (dev_id dev0) reqUnassign store0 = (Reject m 500, store0))"
proof -
  have e: "envOrgList env0 = Inr [''org1'']" by (simp add: env0_def)
  have f: "find (\<lambda>d. dev_id d = dev_id dev0 \<and> dev_org d \<in> set [''org1'']) (devices store0) = Some dev0"
    by (simp add: store0_def dev0_def)
  have r: "rq_interfaces reqUnassign = Some [wan0\<lparr>isAssigned := False\<rparr>]" by (simp add: reqUnassign_def)
  have o: "wan0 \<in> set (interfaces dev0)" "isAssigned wan0" by (simp_all add: dev0_def wan0_def mkInterface_def)
  have u: "find (\<lambda>rif. ifc_id wan0 = ifc_id rif) [wan0\<lparr>isAssigned := False\<rparr>] = Some (wan0\<lparr>isAssigned := False\<rparr>)"
    by simp
  have n: "\<not> isAssigned (wan0\<lparr>isAssigned := False\<rparr>)" by simp
  have t: "\<exists>t\<in>set (tunnels store0). isActive t \<and> (interfaceA t = ifc_id wan0 \<or> interfaceB t = ifc_id wan0)"
    by (simp add: store0_def tun0_def wan0_def mkInterface_def)
  from devicesIdPUT_tunnel_guard[OF e f r o u disjI1[OF conjI[OF n t]]]
  have "\<exists>m. devicesIdPUT env0 (dev_id dev0) reqUnassign store0 = (Reject m 500, store0)" .
  with e f r o u n t show ?thesis by blast
qed

text \<open>A valid request is stored and handed to the dispatcher.\<close>

lemma devicesIdPUT_example:
  "fst (devicesIdPUT env0 (dev_id dev0) reqRename store1) = Success 202
   \<and> map dev_name (devices (snd (devicesIdPUT env0 (dev_id dev0) reqRename store1))) = [''edge1-renamed'', ''edge2'']
   \<and> map dc_method (dispatched (snd (devicesIdPUT env0 (dev_id dev0) reqRename store1))) = [''modify'']"
  by (simp add: put_eval validateDevice_eval validateDhcpRequest_def castPlain_def firstOrg_def store_eval
      reqRename_def wan0_def lan0_def lan1_def wanTen_def lan2_def)

end
